theory Spec2Isabelle
  imports Complex_Main
begin

section \<open>Exceptions and sequencing\<close>

text \<open>
  The repository is two Jupyter notebooks, stored one after the other in
  \<^verbatim>\<open>src/binder/TotalVariationDeblurring.ipynb\<close>. A notebook is a straight line of Python
  statements over one global namespace; every statement either finishes and leaves an
  updated namespace, or raises. An exception is a value of type \<open>exn\<close>: the
  \<^verbatim>\<open>ValueError\<close> that NumPy raises for shapes that do not fit, and \<open>Raised msg\<close> for
  whatever the imaging library raises.
\<close>

datatype exn = ValueError | Raised string

definition and_then :: "exn + 'a \<Rightarrow> ('a \<Rightarrow> exn + 'b) \<Rightarrow> exn + 'b" where
  "and_then m k = (case m of Inl e \<Rightarrow> Inl e | Inr x \<Rightarrow> k x)"

text \<open>A call made for its effect only: the library reports the exception it raises, if any.\<close>

definition effect :: "exn option \<Rightarrow> exn + unit" where
  "effect r = (case r of Some e \<Rightarrow> Inl e | None \<Rightarrow> Inr ())"

type_synonym 's stmt = "'s \<Rightarrow> exn + 's"

text \<open>
  Running the cells top to bottom. There is no \<^verbatim>\<open>try\<close> in either notebook, so the first
  statement that raises ends the run with that exception.
\<close>

fun run_all :: "'s stmt list \<Rightarrow> 's \<Rightarrow> exn + 's" where
  "run_all [] s = Inr s"
| "run_all (c # cs) s = (case c s of Inl e \<Rightarrow> Inl e | Inr s' \<Rightarrow> run_all cs s')"


section \<open>NumPy arrays\<close>

text \<open>
  The notebooks use one- and two-dimensional \<^verbatim>\<open>float64\<close> arrays. Entries are modelled as
  real numbers: inside arrays, rounding, \<^verbatim>\<open>inf\<close> and \<^verbatim>\<open>nan\<close> are outside the model.
  \<open>Vec\<close> is an array of shape \<open>(n,)\<close>, \<open>Mat\<close> a list of rows.
\<close>

datatype ndarray = Vec "real list" | Mat "real list list"

fun amap :: "(real \<Rightarrow> real) \<Rightarrow> ndarray \<Rightarrow> ndarray" where
  "amap h (Vec v) = Vec (map h v)"
| "amap h (Mat m) = Mat (map (map h) m)"

fun entries :: "ndarray \<Rightarrow> real list" where
  "entries (Vec v) = v"
| "entries (Mat m) = concat m"

fun rows :: "ndarray \<Rightarrow> real list list" where
  "rows (Vec v) = [v]"
| "rows (Mat m) = m"

definition ncols :: "real list list \<Rightarrow> nat" where
  "ncols m = (case m of [] \<Rightarrow> 0 | r # _ \<Rightarrow> length r)"

text \<open>\<^verbatim>\<open>np.arange(start, stop)\<close> with step 1: \<open>ceil(stop - start)\<close> values from \<open>start\<close>.\<close>

definition np_arange :: "real \<Rightarrow> real \<Rightarrow> ndarray" where
  "np_arange start stop = Vec (map (\<lambda>i. start + real i) [0..<nat \<lceil>stop - start\<rceil>])"

text \<open>
  \<^verbatim>\<open>np.linspace(start, stop, num)\<close>, end point included. The rounding to \<^verbatim>\<open>float32\<close> that
  \<^verbatim>\<open>dtype='float32'\<close> asks for is not modelled.
\<close>

definition np_linspace :: "real \<Rightarrow> real \<Rightarrow> nat \<Rightarrow> ndarray" where
  "np_linspace start stop num =
     Vec (map (\<lambda>i. start + real i * ((stop - start) / real (num - 1))) [0..<num])"

definition np_exp :: "ndarray \<Rightarrow> ndarray" where
  "np_exp a = amap exp a"

definition np_neg :: "ndarray \<Rightarrow> ndarray" where
  "np_neg a = amap uminus a"

definition np_pow :: "ndarray \<Rightarrow> nat \<Rightarrow> ndarray" where
  "np_pow a n = amap (\<lambda>x. x ^ n) a"

definition np_div_scalar :: "ndarray \<Rightarrow> real \<Rightarrow> ndarray" where
  "np_div_scalar a c = amap (\<lambda>x. x / c) a"

definition np_sum :: "ndarray \<Rightarrow> real" where
  "np_sum a = sum_list (entries a)"

definition np_transpose :: "ndarray \<Rightarrow> ndarray" where
  "np_transpose a =
     (case a of Vec v \<Rightarrow> Vec v
      | Mat m \<Rightarrow> Mat (map (\<lambda>j. map (\<lambda>r. r ! j) m) [0..<ncols m]))"

text \<open>
  \<^verbatim>\<open>a.shape = (r, c)\<close>: the entries are kept in row-major order and cut into \<open>r\<close> rows of
  \<open>c\<close>; NumPy raises \<^verbatim>\<open>ValueError\<close> when the sizes differ.
\<close>

definition set_shape :: "ndarray \<Rightarrow> nat \<times> nat \<Rightarrow> exn + ndarray" where
  "set_shape a rc =
     (case rc of (r, c) \<Rightarrow>
        if length (entries a) = r * c
        then Inr (Mat (map (\<lambda>i. take c (drop (i * c) (entries a))) [0..<r]))
        else Inl ValueError)"

text \<open>
  Elementwise binary operations broadcast: along each axis the two sizes must be equal or
  one of them 1, and the array of size 1 is repeated. A \<open>Vec\<close> of length \<open>n\<close> broadcasts as
  one row of \<open>n\<close>.
\<close>

definition bcast_ok :: "nat \<Rightarrow> nat \<Rightarrow> bool" where
  "bcast_ok m n = (m = n \<or> m = 1 \<or> n = 1)"

definition bcast_dim :: "nat \<Rightarrow> nat \<Rightarrow> nat" where
  "bcast_dim m n = (if m = 1 then n else m)"

definition stretch :: "nat \<Rightarrow> 'a list \<Rightarrow> 'a list" where
  "stretch n xs = (case xs of [x] \<Rightarrow> replicate n x | _ \<Rightarrow> xs)"

definition np_binop :: "(real \<Rightarrow> real \<Rightarrow> real) \<Rightarrow> ndarray \<Rightarrow> ndarray \<Rightarrow> exn + ndarray" where
  "np_binop h a b =
     (let ra = rows a; rb = rows b;
          r = bcast_dim (length ra) (length rb);
          c = bcast_dim (ncols ra) (ncols rb);
          out = map2 (\<lambda>x y. map2 h (stretch c x) (stretch c y)) (stretch r ra) (stretch r rb)
      in if bcast_ok (length ra) (length rb) \<and> bcast_ok (ncols ra) (ncols rb)
         then Inr (case (a, b) of (Vec _, Vec _) \<Rightarrow> Vec (concat out) | _ \<Rightarrow> Mat out)
         else Inl ValueError)"

definition np_times :: "ndarray \<Rightarrow> ndarray \<Rightarrow> exn + ndarray" where
  "np_times a b = np_binop (\<lambda>x y. x * y) a b"

definition np_plus :: "ndarray \<Rightarrow> ndarray \<Rightarrow> exn + ndarray" where
  "np_plus a b = np_binop (\<lambda>x y. x + y) a b"

text \<open>\<^verbatim>\<open>a[a < 0] = 0\<close>: every negative entry is overwritten with 0, the others stay.\<close>

definition clip_negative :: "ndarray \<Rightarrow> ndarray" where
  "clip_negative a = amap (\<lambda>x. if x < 0 then 0 else x) a"



section \<open>Float scalars\<close>

text \<open>
  A scalar result is a \<^verbatim>\<open>float64\<close>: a finite number, an infinity, or \<^verbatim>\<open>nan\<close>.
\<close>

datatype pyfloat = Fin real | PInf | MInf | NaN

text \<open>
  Rounding a real number to \<^verbatim>\<open>float64\<close>, to nearest with ties to even: \<open>x\<close> is cut to 53
  significant bits at the exponent of its binade (not below the smallest normal exponent,
  so that small numbers round as subnormals do), and a result of magnitude \<open>2^1024\<close> or
  more overflows to an infinity.
\<close>

definition rne :: "real \<Rightarrow> int" where
  "rne x = (let n = \<lfloor>x\<rfloor>; r = x - of_int n
            in if r < 1 / 2 then n else if 1 / 2 < r then n + 1
               else if even n then n else n + 1)"

definition binade :: "real \<Rightarrow> int" where
  "binade x = max \<lfloor>log 2 \<bar>x\<bar>\<rfloor> (- 1022)"

definition round64 :: "real \<Rightarrow> pyfloat" where
  "round64 x =
     (if x = 0 then Fin 0
      else let q = 2 powr of_int (binade x - 52); y = of_int (rne (x / q)) * q
           in if 2 powr 1024 \<le> \<bar>y\<bar> then (if 0 < x then PInf else MInf) else Fin y)"

text \<open>
  \<^verbatim>\<open>x / y\<close> where the divisor is a NumPy \<^verbatim>\<open>float64\<close> scalar, as \<^verbatim>\<open>1./normK\<close> on line 482 is
  taken to be: the quotient is rounded, and a zero divisor gives an infinity or \<^verbatim>\<open>nan\<close> and
  a warning, not an exception.
\<close>

definition np_truediv :: "real \<Rightarrow> real \<Rightarrow> pyfloat" where
  "np_truediv x y =
     (if y = 0 then (if 0 < x then PInf else if x < 0 then MInf else NaN)
      else round64 (x / y))"


section \<open>The imaging library\<close>

text \<open>
  The imaging library (CIL with its plugins), NumPy's random generator and the plotting
  utility are not part of the repository. Their data containers carry an array and a
  geometry; geometries are opaque values of a type \<open>'g\<close>.
\<close>

record 'g container =
  array :: ndarray
  geometry :: 'g

text \<open>
  Operators, functions, processors and algorithms are recorded by the constructor call
  that makes them, with the arguments the notebooks pass, in the order of the source:
  \<^verbatim>\<open>BlurringOperator(PSF, ig)\<close>, \<^verbatim>\<open>ProjectionOperator(ig, ag, device)\<close>,
  \<^verbatim>\<open>GradientOperator(ig)\<close>, \<^verbatim>\<open>BlockOperator(A, Grad)\<close>;
  \<^verbatim>\<open>TotalVariation(max_iteration)\<close>, \<^verbatim>\<open>LeastSquares(A, b)\<close>, \<^verbatim>\<open>L2NormSquared(b)\<close>,
  \<^verbatim>\<open>MixedL21Norm()\<close>, \<^verbatim>\<open>IndicatorBox(lower)\<close>, \<^verbatim>\<open>BlockFunction(f1, f2)\<close>, and
  \<open>Scaled c h\<close> for the product \<^verbatim>\<open>c * h\<close> of a number and a function;
  \<^verbatim>\<open>FBP(ig, ag, device)\<close>;
  \<^verbatim>\<open>FISTA(initial, f, g, max_iteration, update_objective_interval)\<close> and
  \<^verbatim>\<open>PDHG(f, g, operator, sigma, tau, max_iteration, update_objective_interval)\<close>.
\<close>

datatype 'g operator =
    BlurringOperator ndarray 'g
  | ProjectionOperator 'g 'g string
  | GradientOperator 'g
  | BlockOperator "'g operator" "'g operator"

datatype 'g func =
    TotalVariation nat
  | LeastSquares "'g operator" "'g container"
  | L2NormSquared "'g container"
  | MixedL21Norm
  | IndicatorBox real
  | Scaled real "'g func"
  | BlockFunction "'g func" "'g func"

datatype 'g processor = FBP 'g 'g string

datatype 'g algorithm =
    FISTA "'g container" "'g func" "'g func" nat nat
  | PDHG "'g func" "'g func" "'g operator" pyfloat pyfloat nat nat

text \<open>What \<^verbatim>\<open>show2D\<close> is given: a bare array or a data container, and the titles.\<close>

datatype 'g shown = Arr ndarray | Img "'g container"

record 'g figure =
  images :: "'g shown list"
  titles :: "string list"

datatype plt_call =
    plt_figure
  | plt_plot ndarray string
  | plt_legend
  | plt_title string
  | plt_show

text \<open>
  The library is a parameter of the model. A constructor either raises or yields the
  object described by its arguments (\<open>operator_error\<close> and its siblings give the exception,
  if any); every other call returns what the library computes, or raises. Library calls
  do not change their arguments, except \<^verbatim>\<open>fill\<close> and \<^verbatim>\<open>run\<close>, which return the changed
  object. The calls, with their arguments in the order of the fields below:
  \<^verbatim>\<open>dataexample.SHAPES.get()\<close>; \<^verbatim>\<open>op.direct(x)\<close>; \<^verbatim>\<open>op.norm()\<close>;
  \<^verbatim>\<open>noise.gaussian(x, seed, var)\<close>; \<^verbatim>\<open>geometry.allocate(value)\<close>, with \<open>None\<close> for
  \<^verbatim>\<open>allocate()\<close>; \<^verbatim>\<open>x.fill(array)\<close>; \<^verbatim>\<open>x.get_slice(horizontal_y)\<close>;
  \<^verbatim>\<open>algorithm.run(iterations, verbose)\<close>, with \<open>None\<close> for an argument that is not passed,
  returning the solution the run leaves; \<^verbatim>\<open>processor(x)\<close>;
  \<^verbatim>\<open>AcquisitionGeometry.create_Parallel2D()\<close>, \<^verbatim>\<open>.set_angles(angles)\<close>,
  \<^verbatim>\<open>.set_panel(num_pixels, pixel_size)\<close>, \<^verbatim>\<open>.get_ImageGeometry()\<close>, \<^verbatim>\<open>.shape\<close>;
  \<^verbatim>\<open>TomoPhantom.get_ImageData(model, ig)\<close>; \<^verbatim>\<open>np.random.normal(loc, scale, size)\<close>;
  \<^verbatim>\<open>show2D\<close> and the \<^verbatim>\<open>plt\<close> calls.
\<close>

record 'g lib =
  operator_error :: "'g operator \<Rightarrow> exn option"
  function_error :: "'g func \<Rightarrow> exn option"
  processor_error :: "'g processor \<Rightarrow> exn option"
  algorithm_error :: "'g algorithm \<Rightarrow> exn option"
  SHAPES_get :: "exn + 'g container"
  direct :: "'g operator \<Rightarrow> 'g container \<Rightarrow> exn + 'g container"
  operator_norm :: "'g operator \<Rightarrow> exn + real"
  noise_gaussian :: "'g container \<Rightarrow> nat \<Rightarrow> real \<Rightarrow> exn + 'g container"
  allocate :: "'g \<Rightarrow> real option \<Rightarrow> exn + 'g container"
  fill :: "'g container \<Rightarrow> ndarray \<Rightarrow> exn + 'g container"
  get_slice :: "'g container \<Rightarrow> nat \<Rightarrow> exn + 'g container"
  run :: "'g algorithm \<Rightarrow> nat option \<Rightarrow> nat option \<Rightarrow> exn + 'g container"
  process :: "'g processor \<Rightarrow> 'g container \<Rightarrow> exn + 'g container"
  create_Parallel2D :: "exn + 'g"
  set_angles :: "'g \<Rightarrow> ndarray \<Rightarrow> exn + 'g"
  set_panel :: "'g \<Rightarrow> nat \<Rightarrow> real \<Rightarrow> exn + 'g"
  get_ImageGeometry :: "'g \<Rightarrow> exn + 'g"
  shape :: "'g \<Rightarrow> exn + nat list"
  TomoPhantom_get_ImageData :: "nat \<Rightarrow> 'g \<Rightarrow> exn + 'g container"
  random_normal :: "real \<Rightarrow> real \<Rightarrow> nat list \<Rightarrow> exn + ndarray"
  show2D :: "'g figure \<Rightarrow> exn option"
  plt :: "plt_call \<Rightarrow> exn option"

definition new_operator :: "'g lib \<Rightarrow> 'g operator \<Rightarrow> exn + 'g operator" where
  "new_operator L x = (case operator_error L x of Some e \<Rightarrow> Inl e | None \<Rightarrow> Inr x)"

definition new_function :: "'g lib \<Rightarrow> 'g func \<Rightarrow> exn + 'g func" where
  "new_function L x = (case function_error L x of Some e \<Rightarrow> Inl e | None \<Rightarrow> Inr x)"

definition new_processor :: "'g lib \<Rightarrow> 'g processor \<Rightarrow> exn + 'g processor" where
  "new_processor L x = (case processor_error L x of Some e \<Rightarrow> Inl e | None \<Rightarrow> Inr x)"

definition new_algorithm :: "'g lib \<Rightarrow> 'g algorithm \<Rightarrow> exn + 'g algorithm" where
  "new_algorithm L x = (case algorithm_error L x of Some e \<Rightarrow> Inl e | None \<Rightarrow> Inr x)"



section \<open>What the function objects denote\<close>

text \<open>
  The second notebook states, in the text cell above its PDHG set-up, what its objects
  stand for: the operator \<open>K\<close> stacks \<open>A\<close> and the gradient \<open>D\<close>, so that \<open>Ku = (Au, Du)\<close>;
  \<open>f(y1, y2) = f1(y1) + f2(y2)\<close> with \<open>f1(y1) = 1/2 ||y1 - g||^2\<close> and
  \<open>f2(y2) = alpha ||y2||_{2,1}\<close>; \<open>g\<close> is the indicator of \<open>u >= 0\<close>; and PDHG minimises
  \<open>f(Kx) + g(x)\<close>. The definitions below give the constructors these meanings. Images are
  vectors of reals here, a block container is a list of components, and a function value
  is a float scalar, which may be infinite.

  What a single operator does to an image (\<open>lin\<close>) is a parameter, and so is the meaning
  of the two function objects the text cells do not define, \<^verbatim>\<open>LeastSquares\<close> and
  \<^verbatim>\<open>TotalVariation\<close> (\<open>leaf\<close>).
\<close>

fun fadd :: "pyfloat \<Rightarrow> pyfloat \<Rightarrow> pyfloat" where
  "fadd (Fin x) (Fin y) = Fin (x + y)"
| "fadd NaN _ = NaN"
| "fadd _ NaN = NaN"
| "fadd PInf MInf = NaN"
| "fadd MInf PInf = NaN"
| "fadd PInf _ = PInf"
| "fadd _ PInf = PInf"
| "fadd MInf _ = MInf"
| "fadd _ MInf = MInf"

fun fmul :: "real \<Rightarrow> pyfloat \<Rightarrow> pyfloat" where
  "fmul c (Fin x) = Fin (c * x)"
| "fmul c NaN = NaN"
| "fmul c PInf = (if 0 < c then PInf else if c < 0 then MInf else NaN)"
| "fmul c MInf = (if 0 < c then MInf else if c < 0 then PInf else NaN)"

datatype bdc = Data "real list" | Block "bdc list"

text \<open>The squared 2-norm of a difference; the two vectors must have the same size.\<close>

definition l2sq_diff :: "real list \<Rightarrow> real list \<Rightarrow> real" where
  "l2sq_diff y b = sum_list (map2 (\<lambda>x z. (x - z) ^ 2) y b)"

text \<open>
  The mixed (2,1)-norm of components \<open>y_1 ... y_k\<close> of one size: at each pixel the
  Euclidean norm across the components, summed over the pixels.
\<close>

definition l21 :: "real list list \<Rightarrow> real" where
  "l21 ys = (case ys of [] \<Rightarrow> 0
             | y # _ \<Rightarrow> sum_list (map (\<lambda>i. sqrt (sum_list (map (\<lambda>v. (v ! i) ^ 2) ys)))
                                    [0..<length y]))"

definition same_size :: "real list list \<Rightarrow> bool" where
  "same_size ys = (case ys of [] \<Rightarrow> True | y # rest \<Rightarrow> list_all (\<lambda>v. length v = length y) rest)"

definition box_indicator :: "real \<Rightarrow> real list \<Rightarrow> pyfloat" where
  "box_indicator lower u = (if list_all (\<lambda>x. lower \<le> x) u then Fin 0 else PInf)"

fun components :: "bdc list \<Rightarrow> real list list option" where
  "components [] = Some []"
| "components (Data v # rest) = map_option (\<lambda>vs. v # vs) (components rest)"
| "components (Block _ # rest) = None"

fun fn_apply :: "('g func \<Rightarrow> bdc \<Rightarrow> exn + pyfloat) \<Rightarrow> 'g func \<Rightarrow> bdc \<Rightarrow> exn + pyfloat" where
  "fn_apply leaf (Scaled c h) y = and_then (fn_apply leaf h y) (\<lambda>v. Inr (fmul c v))"
| "fn_apply leaf (BlockFunction h1 h2) y =
     (case y of
        Block [y1, y2] \<Rightarrow>
          and_then (fn_apply leaf h1 y1) (\<lambda>a.
          and_then (fn_apply leaf h2 y2) (\<lambda>b. Inr (fadd a b)))
      | _ \<Rightarrow> Inl ValueError)"
| "fn_apply leaf (L2NormSquared b) y =
     (case y of
        Data v \<Rightarrow>
          if length v = length (entries (array b))
          then Inr (Fin (l2sq_diff v (entries (array b)))) else Inl ValueError
      | Block _ \<Rightarrow> Inl ValueError)"
| "fn_apply leaf MixedL21Norm y =
     (case y of
        Block ys \<Rightarrow>
          (case components ys of
             Some vs \<Rightarrow> if same_size vs then Inr (Fin (l21 vs)) else Inl ValueError
           | None \<Rightarrow> Inl ValueError)
      | Data _ \<Rightarrow> Inl ValueError)"
| "fn_apply leaf (IndicatorBox lower) y =
     (case y of Data v \<Rightarrow> Inr (box_indicator lower v) | Block _ \<Rightarrow> Inl ValueError)"
| "fn_apply leaf (TotalVariation n) y = leaf (TotalVariation n) y"
| "fn_apply leaf (LeastSquares a b) y = leaf (LeastSquares a b) y"

fun op_apply ::
  "('g operator \<Rightarrow> real list \<Rightarrow> exn + bdc) \<Rightarrow> 'g operator \<Rightarrow> real list \<Rightarrow> exn + bdc" where
  "op_apply lin (BlockOperator a b) u =
     and_then (op_apply lin a u) (\<lambda>y1.
     and_then (op_apply lin b u) (\<lambda>y2. Inr (Block [y1, y2])))"
| "op_apply lin (BlurringOperator p i) u = lin (BlurringOperator p i) u"
| "op_apply lin (ProjectionOperator i a d) u = lin (ProjectionOperator i a d) u"
| "op_apply lin (GradientOperator i) u = lin (GradientOperator i) u"

text \<open>The objective an algorithm is set up to minimise: \<open>f(x) + g(x)\<close> for FISTA,
  \<open>f(Kx) + g(x)\<close> for PDHG.\<close>

definition objective ::
  "('g operator \<Rightarrow> real list \<Rightarrow> exn + bdc) \<Rightarrow> ('g func \<Rightarrow> bdc \<Rightarrow> exn + pyfloat) \<Rightarrow>
   'g algorithm \<Rightarrow> real list \<Rightarrow> exn + pyfloat" where
  "objective lin leaf alg u =
     (case alg of
        FISTA x0 hf hg n m \<Rightarrow>
          and_then (fn_apply leaf hf (Data u)) (\<lambda>a.
          and_then (fn_apply leaf hg (Data u)) (\<lambda>b. Inr (fadd a b)))
      | PDHG hf hg k sg ta n m \<Rightarrow>
          and_then (op_apply lin k u) (\<lambda>y.
          and_then (fn_apply leaf hf y) (\<lambda>a.
          and_then (fn_apply leaf hg (Data u)) (\<lambda>b. Inr (fadd a b)))))"

text \<open>
  The objective (1) as the second notebook states it, for the data \<open>b\<close>, the weight
  \<open>al\<close>, and the values \<open>Au\<close> and \<open>Du\<close> of the projection and of the gradient at \<open>u\<close>:
  \<open>1/2 ||Au - b||^2 + al ||Du||_{2,1} + I_{u >= 0}(u)\<close>.
\<close>

definition tv_objective ::
  "real \<Rightarrow> real list \<Rightarrow> real list \<Rightarrow> real list list \<Rightarrow> real list \<Rightarrow> pyfloat" where
  "tv_objective al Au b Du u =
     fadd (Fin (1 / 2 * l2sq_diff Au b + al * l21 Du)) (box_indicator 0 u)"

section \<open>Notebook 1: total variation deblurring\<close>

text \<open>
  The namespace of the first notebook, one field per variable. \<open>fista_solution\<close> is the
  attribute \<^verbatim>\<open>fista.solution\<close> as \<^verbatim>\<open>fista.run()\<close> leaves it, and \<open>shown\<close> lists the figures
  passed to \<^verbatim>\<open>show2D\<close> so far. The import cell only binds the library's names.
\<close>

record 'g deblur =
  data :: "'g container"
  ig :: 'g
  ks :: nat
  ksigma :: nat
  w :: ndarray
  PSF :: ndarray
  BOP :: "'g operator"
  blurred_noisy :: "'g container"
  alpha :: real
  G :: "'g func"
  F :: "'g func"
  fista :: "'g algorithm"
  fista_solution :: "'g container"
  shown :: "'g figure list"

text \<open>\<^verbatim>\<open>data = dataexample.SHAPES.get()\<close>; \<^verbatim>\<open>ig = data.geometry\<close>\<close>

definition load_cell :: "'g lib \<Rightarrow> 'g deblur stmt list" where
  "load_cell L =
    [\<lambda>s. and_then (SHAPES_get L) (\<lambda>v. Inr (s\<lparr>data := v\<rparr>)),
     \<lambda>s. Inr (s\<lparr>ig := geometry (data s)\<rparr>)]"

text \<open>
  The point spread function, lines 97 to 105. In
  \<^verbatim>\<open>-np.arange(-(ks-1)/2,(ks-1)/2+1)**2/(2*ksigma**2)\<close> the power binds first, then the
  minus sign, then the division. The two divisions by a sum are NumPy divisions, which do
  not raise.
\<close>

definition psf_cell :: "'g deblur stmt list" where
  "psf_cell =
    [\<lambda>s. Inr (s\<lparr>ks := 5\<rparr>),
     \<lambda>s. Inr (s\<lparr>ksigma := 2\<rparr>),
     \<lambda>s. Inr (s\<lparr>w := np_exp (np_div_scalar
              (np_neg (np_pow (np_arange (- (real (ks s) - 1) / 2) ((real (ks s) - 1) / 2 + 1)) 2))
              (real (2 * ksigma s ^ 2)))\<rparr>),
     \<lambda>s. and_then (set_shape (w s) (ks s, 1)) (\<lambda>v. Inr (s\<lparr>w := v\<rparr>)),
     \<lambda>s. and_then (np_times (w s) (np_transpose (w s))) (\<lambda>v. Inr (s\<lparr>PSF := v\<rparr>)),
     \<lambda>s. Inr (s\<lparr>PSF := np_div_scalar (PSF s) (np_sum (np_pow (PSF s) 2))\<rparr>),
     \<lambda>s. Inr (s\<lparr>PSF := np_div_scalar (PSF s) (np_sum (PSF s))\<rparr>)]"

text \<open>Lines 108 to 115: show the PSF, build the blurring operator, blur, add noise, show.\<close>

definition display :: "'g lib \<Rightarrow> 'g figure \<Rightarrow> 'g deblur stmt" where
  "display L fig s = and_then (effect (show2D L fig)) (\<lambda>_. Inr (s\<lparr>shown := shown s @ [fig]\<rparr>))"

definition blur_cell :: "'g lib \<Rightarrow> 'g deblur stmt list" where
  "blur_cell L =
    [\<lambda>s. display L \<lparr>images = [Arr (PSF s)], titles = [''PSF'']\<rparr> s,
     \<lambda>s. and_then (new_operator L (BlurringOperator (PSF s) (ig s))) (\<lambda>v. Inr (s\<lparr>BOP := v\<rparr>)),
     \<lambda>s. and_then (direct L (BOP s) (data s)) (\<lambda>b.
          and_then (noise_gaussian L b 10 (1 / 10000)) (\<lambda>v. Inr (s\<lparr>blurred_noisy := v\<rparr>))),
     \<lambda>s. display L \<lparr>images = [Img (blurred_noisy s)], titles = [''Blurred+Noisy'']\<rparr> s]"

text \<open>Lines 139 to 145: set up FISTA and run it.\<close>

definition fista_cell :: "'g lib \<Rightarrow> 'g deblur stmt list" where
  "fista_cell L =
    [\<lambda>s. Inr (s\<lparr>alpha := 5 / 100\<rparr>),
     \<lambda>s. and_then (new_function L (TotalVariation 10)) (\<lambda>t.
          and_then (new_function L (Scaled (alpha s) t)) (\<lambda>v. Inr (s\<lparr>G := v\<rparr>))),
     \<lambda>s. and_then (new_function L (LeastSquares (BOP s) (blurred_noisy s)))
            (\<lambda>v. Inr (s\<lparr>F := v\<rparr>)),
     \<lambda>s. and_then (allocate L (ig s) (Some 0)) (\<lambda>x0.
          and_then (new_algorithm L (FISTA x0 (F s) (G s) 200 50)) (\<lambda>v. Inr (s\<lparr>fista := v\<rparr>))),
     \<lambda>s. and_then (run L (fista s) None None) (\<lambda>v. Inr (s\<lparr>fista_solution := v\<rparr>))]"

text \<open>Lines 155 to 157.\<close>

definition result_cell :: "'g lib \<Rightarrow> 'g deblur stmt list" where
  "result_cell L =
    [\<lambda>s. display L
            \<lparr>images = [Img (data s), Img (blurred_noisy s), Img (fista_solution s)],
             titles = [''Ground truth'', ''Noisy Data (Gaussian)'', ''Deblurred'']\<rparr> s]"

definition deblurring_notebook :: "'g lib \<Rightarrow> 'g deblur stmt list" where
  "deblurring_notebook L = load_cell L @ psf_cell @ blur_cell L @ fista_cell L @ result_cell L"


section \<open>Notebook 2: tomography reconstruction\<close>

text \<open>
  The namespace of the second notebook. Its first cells install the library, import it and
  print its version; they fix which library \<open>L\<close> the remaining cells call and are not
  statements of the model. \<open>pdhg_solution\<close> is \<^verbatim>\<open>pdhg.solution\<close> as \<^verbatim>\<open>pdhg.run\<close> leaves it.
\<close>

record 'g tomo =
  N :: nat
  detectors :: nat
  angles :: ndarray
  ag :: 'g
  ig :: 'g
  phantom :: "'g container"
  A :: "'g operator"
  sino :: "'g container"
  gaussian_var :: real
  gaussian_mean :: real
  n1 :: ndarray
  noisy_sino :: "'g container"
  fbp_recon :: "'g container"
  Grad :: "'g operator"
  K :: "'g operator"
  alpha :: real
  f1 :: "'g func"
  f2 :: "'g func"
  f :: "'g func"
  g :: "'g func"
  normK :: real
  sigma :: pyfloat
  tau :: pyfloat
  pdhg :: "'g algorithm"
  pdhg_solution :: "'g container"
  shown :: "'g figure list"

definition tomo_display :: "'g lib \<Rightarrow> 'g figure \<Rightarrow> 'g tomo stmt" where
  "tomo_display L fig s =
     and_then (effect (show2D L fig)) (\<lambda>_. Inr (s\<lparr>shown := shown s @ [fig]\<rparr>))"

text \<open>Lines 320 to 335: acquisition geometry, image geometry, phantom.\<close>

definition geometry_cell :: "'g lib \<Rightarrow> 'g tomo stmt list" where
  "geometry_cell L =
    [\<lambda>s. Inr (s\<lparr>N := 256\<rparr>),
     \<lambda>s. Inr (s\<lparr>detectors := N s\<rparr>),
     \<lambda>s. Inr (s\<lparr>angles := np_linspace 0 180 180\<rparr>),
     \<lambda>s. and_then (create_Parallel2D L) (\<lambda>a.
          and_then (set_angles L a (angles s)) (\<lambda>a.
          and_then (set_panel L a (detectors s) (1 / 10)) (\<lambda>v. Inr (s\<lparr>ag := v\<rparr>)))),
     \<lambda>s. and_then (get_ImageGeometry L (ag s)) (\<lambda>v. Inr (s\<lparr>ig := v\<rparr>)),
     \<lambda>s. and_then (TomoPhantom_get_ImageData L 12 (ig s)) (\<lambda>v. Inr (s\<lparr>phantom := v\<rparr>))]"

text \<open>
  Lines 361 to 377: projection operator, clean sinogram, noise, and the noisy sinogram.
  \<^verbatim>\<open>np.random.normal(gaussian_mean, gaussian_var, size = ag.shape)\<close> takes the mean and the
  standard deviation. \<^verbatim>\<open>noisy_sino.array[noisy_sino.array<0]=0\<close> writes into the array that
  the container holds.
\<close>

definition sinogram_cell :: "'g lib \<Rightarrow> 'g tomo stmt list" where
  "sinogram_cell L =
    [\<lambda>s. and_then (new_operator L (ProjectionOperator (ig s) (ag s) ''gpu''))
            (\<lambda>v. Inr (s\<lparr>A := v\<rparr>)),
     \<lambda>s. and_then (direct L (A s) (phantom s)) (\<lambda>v. Inr (s\<lparr>sino := v\<rparr>)),
     \<lambda>s. Inr (s\<lparr>gaussian_var := 5 / 10\<rparr>),
     \<lambda>s. Inr (s\<lparr>gaussian_mean := 0\<rparr>),
     \<lambda>s. and_then (shape L (ag s)) (\<lambda>sh.
          and_then (random_normal L (gaussian_mean s) (gaussian_var s) sh)
            (\<lambda>v. Inr (s\<lparr>n1 := v\<rparr>))),
     \<lambda>s. and_then (allocate L (ag s) None) (\<lambda>v. Inr (s\<lparr>noisy_sino := v\<rparr>)),
     \<lambda>s. and_then (np_plus (n1 s) (array (sino s))) (\<lambda>a.
          and_then (fill L (noisy_sino s) a) (\<lambda>v. Inr (s\<lparr>noisy_sino := v\<rparr>))),
     \<lambda>s. Inr (s\<lparr>noisy_sino := (noisy_sino s)\<lparr>array := clip_negative (array (noisy_sino s))\<rparr>\<rparr>),
     \<lambda>s. tomo_display L
            \<lparr>images = [Img (phantom s), Img (sino s), Img (noisy_sino s)],
             titles = [''Ground Truth'', ''Sinogram'', ''Noisy Sinogram'']\<rparr> s]"

text \<open>Lines 403 to 408: filtered back projection of the noisy sinogram.\<close>

definition fbp_cell :: "'g lib \<Rightarrow> 'g tomo stmt list" where
  "fbp_cell L =
    [\<lambda>s. and_then (new_processor L (FBP (ig s) (ag s) ''cpu'')) (\<lambda>p.
          and_then (process L p (noisy_sino s)) (\<lambda>v. Inr (s\<lparr>fbp_recon := v\<rparr>))),
     \<lambda>s. tomo_display L
            \<lparr>images = [Img (phantom s), Img (fbp_recon s)],
             titles = [''Ground Truth'', ''FBP reconstruction'']\<rparr> s]"

text \<open>Lines 468 to 489: the operator, the two functions, the step sizes, PDHG.\<close>

definition pdhg_cell :: "'g lib \<Rightarrow> 'g tomo stmt list" where
  "pdhg_cell L =
    [\<lambda>s. and_then (new_operator L (GradientOperator (ig s))) (\<lambda>v. Inr (s\<lparr>Grad := v\<rparr>)),
     \<lambda>s. and_then (new_operator L (BlockOperator (A s) (Grad s))) (\<lambda>v. Inr (s\<lparr>K := v\<rparr>)),
     \<lambda>s. Inr (s\<lparr>alpha := 1 / 10\<rparr>),
     \<lambda>s. and_then (new_function L (L2NormSquared (noisy_sino s))) (\<lambda>q.
          and_then (new_function L (Scaled (5 / 10) q)) (\<lambda>v. Inr (s\<lparr>f1 := v\<rparr>))),
     \<lambda>s. and_then (new_function L MixedL21Norm) (\<lambda>q.
          and_then (new_function L (Scaled (alpha s) q)) (\<lambda>v. Inr (s\<lparr>f2 := v\<rparr>))),
     \<lambda>s. and_then (new_function L (BlockFunction (f1 s) (f2 s))) (\<lambda>v. Inr (s\<lparr>f := v\<rparr>)),
     \<lambda>s. and_then (new_function L (IndicatorBox 0)) (\<lambda>v. Inr (s\<lparr>g := v\<rparr>)),
     \<lambda>s. and_then (operator_norm L (K s)) (\<lambda>v. Inr (s\<lparr>normK := v\<rparr>)),
     \<lambda>s. Inr (s\<lparr>sigma := np_truediv 1 (normK s)\<rparr>),
     \<lambda>s. Inr (s\<lparr>tau := np_truediv 1 (normK s)\<rparr>),
     \<lambda>s. and_then (new_algorithm L (PDHG (f s) (g s) (K s) (sigma s) (tau s) 200 50))
            (\<lambda>v. Inr (s\<lparr>pdhg := v\<rparr>)),
     \<lambda>s. and_then (run L (pdhg s) None (Some 2)) (\<lambda>v. Inr (s\<lparr>pdhg_solution := v\<rparr>))]"

text \<open>Lines 514 to 523: the three images side by side, and the middle line profiles.\<close>

definition middle_line :: "'g lib \<Rightarrow> 'g container \<Rightarrow> string \<Rightarrow> 'g tomo stmt" where
  "middle_line L x label s =
     and_then (get_slice L x (nat \<lfloor>real (N s) / 2\<rfloor>)) (\<lambda>y.
     and_then (effect (plt L (plt_plot (array y) label))) (\<lambda>_. Inr s))"

definition compare_cell :: "'g lib \<Rightarrow> 'g tomo stmt list" where
  "compare_cell L =
    [\<lambda>s. tomo_display L
            \<lparr>images = [Img (pdhg_solution s), Img (fbp_recon s), Img (phantom s)],
             titles = [''TV regularisation'', ''FBP'', ''Ground Truth'']\<rparr> s,
     \<lambda>s. and_then (effect (plt L plt_figure)) (\<lambda>_. Inr s),
     \<lambda>s. middle_line L (phantom s) ''Ground Truth'' s,
     \<lambda>s. middle_line L (fbp_recon s) ''FBP'' s,
     \<lambda>s. middle_line L (pdhg_solution s) ''TV'' s,
     \<lambda>s. and_then (effect (plt L plt_legend)) (\<lambda>_. Inr s),
     \<lambda>s. and_then (effect (plt L (plt_title ''Middle Line Profiles''))) (\<lambda>_. Inr s),
     \<lambda>s. and_then (effect (plt L plt_show)) (\<lambda>_. Inr s)]"

definition tomography_notebook :: "'g lib \<Rightarrow> 'g tomo stmt list" where
  "tomography_notebook L =
     geometry_cell L @ sinogram_cell L @ fbp_cell L @ pdhg_cell L @ compare_cell L"


section \<open>A stand-in library\<close>

text \<open>
  A small library on which both notebooks run to the end, used to evaluate them:
  geometries carry no information, every image is a 1\<times>1 array, operators return their
  argument, the noise generator draws \<open>-1\<close>, and a solver returns its initial image (or the
  zero image); the norm of an operator is 2. \<open>no_gpu_lib\<close> is the same library on a
  machine without a GPU, and \<open>ten_lib\<close> the same library with operators of norm 10.
\<close>

definition unit_image :: "real \<Rightarrow> unit container" where
  "unit_image x = \<lparr>array = Mat [[x]], geometry = ()\<rparr>"

definition demo_lib :: "unit lib" where
  "demo_lib =
    \<lparr>operator_error = (\<lambda>_. None),
     function_error = (\<lambda>_. None),
     processor_error = (\<lambda>_. None),
     algorithm_error = (\<lambda>_. None),
     SHAPES_get = Inr (unit_image 1),
     direct = (\<lambda>_ x. Inr x),
     operator_norm = (\<lambda>_. Inr 2),
     noise_gaussian = (\<lambda>x _ _. Inr x),
     allocate = (\<lambda>_ v. Inr (unit_image (case v of None \<Rightarrow> 0 | Some x \<Rightarrow> x))),
     fill = (\<lambda>c a. Inr (c\<lparr>array := a\<rparr>)),
     get_slice = (\<lambda>c _. Inr c),
     run = (\<lambda>alg _ _. Inr (case alg of FISTA x0 _ _ _ _ \<Rightarrow> x0 | _ \<Rightarrow> unit_image 0)),
     process = (\<lambda>_ x. Inr x),
     create_Parallel2D = Inr (),
     set_angles = (\<lambda>_ _. Inr ()),
     set_panel = (\<lambda>_ _ _. Inr ()),
     get_ImageGeometry = (\<lambda>_. Inr ()),
     shape = (\<lambda>_. Inr [1, 1]),
     TomoPhantom_get_ImageData = (\<lambda>_ _. Inr (unit_image 0)),
     random_normal = (\<lambda>_ _ _. Inr (Mat [[- 1]])),
     show2D = (\<lambda>_. None),
     plt = (\<lambda>_. None)\<rparr>"

definition no_gpu_lib :: "unit lib" where
  "no_gpu_lib =
     demo_lib\<lparr>operator_error :=
       (\<lambda>x. case x of
              ProjectionOperator _ _ d \<Rightarrow>
                if d = ''gpu'' then Some (Raised ''device unavailable'') else None
            | _ \<Rightarrow> None)\<rparr>"

definition ten_lib :: "unit lib" where
  "ten_lib = demo_lib\<lparr>operator_norm := (\<lambda>_. Inr 10)\<rparr>"

text \<open>Namespaces before the first cell: placeholders, all overwritten before they are read.\<close>

definition deblur_start :: "unit deblur" where
  "deblur_start =
    \<lparr>data = unit_image 0, ig = (), ks = 0, ksigma = 0, w = Vec [], PSF = Vec [],
     BOP = GradientOperator (), blurred_noisy = unit_image 0, alpha = 0,
     G = MixedL21Norm, F = MixedL21Norm,
     fista = FISTA (unit_image 0) MixedL21Norm MixedL21Norm 0 0,
     fista_solution = unit_image 0, shown = []\<rparr>"

definition tomo_start :: "unit tomo" where
  "tomo_start =
    \<lparr>N = 0, detectors = 0, angles = Vec [], ag = (), ig = (), phantom = unit_image 0,
     A = GradientOperator (), sino = unit_image 0, gaussian_var = 0, gaussian_mean = 0,
     n1 = Vec [], noisy_sino = unit_image 0, fbp_recon = unit_image 0,
     Grad = GradientOperator (), K = GradientOperator (), alpha = 0,
     f1 = MixedL21Norm, f2 = MixedL21Norm, f = MixedL21Norm, g = MixedL21Norm,
     normK = 0, sigma = Fin 0, tau = Fin 0,
     pdhg = FISTA (unit_image 0) MixedL21Norm MixedL21Norm 0 0,
     pdhg_solution = unit_image 0, shown = []\<rparr>"

text \<open>The five window values \<open>exp(-x^2/8)\<close> for \<open>x = -2, ..., 2\<close>.\<close>

definition gauss5 :: "real list" where
  "gauss5 = [exp (- (1 / 2)), exp (- (1 / 8)), 1, exp (- (1 / 8)), exp (- (1 / 2))]"


text \<open>The value the PSF statements compute (lemma \<open>psf_cell_run\<close> below).\<close>

definition psf5 :: ndarray where
  "psf5 = (let Q = Mat (map (\<lambda>x. map (\<lambda>y. x * y) gauss5) gauss5);
               Q1 = np_div_scalar Q (np_sum (np_pow Q 2))
           in np_div_scalar Q1 (np_sum Q1))"

text \<open>The namespaces the two notebooks end with on the stand-in library.\<close>

definition deblur_end :: "unit deblur" where
  "deblur_end =
     (case run_all (deblurring_notebook demo_lib) deblur_start of
        Inr s \<Rightarrow> s | Inl _ \<Rightarrow> deblur_start)"

definition tomo_end :: "unit tomo" where
  "tomo_end =
     (case run_all (tomography_notebook demo_lib) tomo_start of
        Inr s \<Rightarrow> s | Inl _ \<Rightarrow> tomo_start)"

definition tomo_end_ten :: "unit tomo" where
  "tomo_end_ten =
     (case run_all (tomography_notebook ten_lib) tomo_start of
        Inr s \<Rightarrow> s | Inl _ \<Rightarrow> tomo_start)"

text \<open>
  Stand-in meanings for the operators: the projection returns its argument, the gradient
  has the two components \<open>u\<close> and \<open>u + 1\<close>.
\<close>

definition demo_lin :: "unit operator \<Rightarrow> real list \<Rightarrow> exn + bdc" where
  "demo_lin x u =
     (case x of
        GradientOperator _ \<Rightarrow> Inr (Block [Data u, Data (map (\<lambda>v. v + 1) u)])
      | _ \<Rightarrow> Inr (Data u))"

definition demo_leaf :: "unit func \<Rightarrow> bdc \<Rightarrow> exn + pyfloat" where
  "demo_leaf h y = Inl (Raised ''not modelled'')"


section \<open>Running statements\<close>

lemma and_then_Inr [simp]: "and_then (Inr x) k = k x"
  by (simp add: and_then_def)

lemma and_then_Inl [simp]: "and_then (Inl e) k = Inl e"
  by (simp add: and_then_def)

lemma and_then_eq_Inr: "and_then m k = Inr y \<longleftrightarrow> (\<exists>x. m = Inr x \<and> k x = Inr y)"
  by (cases m) simp_all

lemma effect_None [simp]: "effect None = Inr ()"
  by (simp add: effect_def)

lemma effect_Some [simp]: "effect (Some e) = Inl e"
  by (simp add: effect_def)

lemma effect_eq_Inr: "effect r = Inr u \<longleftrightarrow> r = None"
  by (cases r) simp_all

lemma new_operator_eq_Inr:
  "new_operator L x = Inr y \<longleftrightarrow> operator_error L x = None \<and> y = x"
  by (cases "operator_error L x") (auto simp: new_operator_def)

lemma new_function_eq_Inr:
  "new_function L x = Inr y \<longleftrightarrow> function_error L x = None \<and> y = x"
  by (cases "function_error L x") (auto simp: new_function_def)

lemma new_processor_eq_Inr:
  "new_processor L x = Inr y \<longleftrightarrow> processor_error L x = None \<and> y = x"
  by (cases "processor_error L x") (auto simp: new_processor_def)

lemma new_algorithm_eq_Inr:
  "new_algorithm L x = Inr y \<longleftrightarrow> algorithm_error L x = None \<and> y = x"
  by (cases "algorithm_error L x") (auto simp: new_algorithm_def)

lemma run_all_Cons_eq_Inr:
  "run_all (c # cs) s = Inr s' \<longleftrightarrow> (\<exists>s1. c s = Inr s1 \<and> run_all cs s1 = Inr s')"
  by (cases "c s") simp_all

lemma run_all_append: "run_all (xs @ ys) s = and_then (run_all xs s) (run_all ys)"
  by (induction xs arbitrary: s) (simp_all split: sum.splits)

lemmas step_simps = run_all_Cons_eq_Inr and_then_eq_Inr effect_eq_Inr new_operator_eq_Inr
  new_function_eq_Inr new_processor_eq_Inr new_algorithm_eq_Inr

lemma and_then_eq_Inl:
  "and_then m k = Inl e \<longleftrightarrow> m = Inl e \<or> (\<exists>x. m = Inr x \<and> k x = Inl e)"
  by (cases m) simp_all

lemma effect_eq_Inl: "effect r = Inl e \<longleftrightarrow> r = Some e"
  by (cases r) simp_all

lemma new_operator_eq_Inl: "new_operator L x = Inl e \<longleftrightarrow> operator_error L x = Some e"
  by (cases "operator_error L x") (auto simp: new_operator_def)

lemma new_function_eq_Inl: "new_function L x = Inl e \<longleftrightarrow> function_error L x = Some e"
  by (cases "function_error L x") (auto simp: new_function_def)

lemma new_processor_eq_Inl: "new_processor L x = Inl e \<longleftrightarrow> processor_error L x = Some e"
  by (cases "processor_error L x") (auto simp: new_processor_def)

lemma new_algorithm_eq_Inl: "new_algorithm L x = Inl e \<longleftrightarrow> algorithm_error L x = Some e"
  by (cases "algorithm_error L x") (auto simp: new_algorithm_def)

lemma run_all_Cons_eq_Inl:
  "run_all (c # cs) s = Inl e \<longleftrightarrow>
     c s = Inl e \<or> (\<exists>s1. c s = Inr s1 \<and> run_all cs s1 = Inl e)"
  by (cases "c s") simp_all

lemma run_all_append_eq_Inl:
  "run_all (xs @ ys) s = Inl e \<longleftrightarrow>
     run_all xs s = Inl e \<or> (\<exists>s1. run_all xs s = Inr s1 \<and> run_all ys s1 = Inl e)"
  by (simp add: run_all_append and_then_eq_Inl)

lemmas fail_simps = run_all_Cons_eq_Inl and_then_eq_Inl effect_eq_Inl new_operator_eq_Inl
  new_function_eq_Inl new_processor_eq_Inl new_algorithm_eq_Inl


section \<open>Array arithmetic\<close>

lemma entries_amap: "entries (amap h a) = map h (entries a)"
  by (cases a) (simp_all add: map_concat)

lemma amap_amap: "amap h (amap k a) = amap (\<lambda>x. h (k x)) a"
  by (cases a) simp_all

lemma sum_list_div: "sum_list (map (\<lambda>x. x / c) xs) = sum_list xs / (c::real)"
  by (induction xs) (simp_all add: add_divide_distrib)

lemma np_sum_div_scalar: "np_sum (np_div_scalar a c) = np_sum a / c"
  by (simp add: np_sum_def np_div_scalar_def entries_amap sum_list_div)

text \<open>Dividing by a constant before normalising to sum 1 does not change the result.\<close>

lemma renormalise:
  assumes "c \<noteq> 0"
  shows "np_div_scalar (np_div_scalar a c) (np_sum (np_div_scalar a c)) =
         np_div_scalar a (np_sum a)"
  using assms by (simp add: np_sum_div_scalar) (simp add: np_div_scalar_def amap_amap)

lemma sum_list_pos_real:
  assumes "xs \<noteq> []" "\<forall>x\<in>set xs. (0::real) < x"
  shows "0 < sum_list xs"
  using assms by (induction xs) (auto intro: add_pos_nonneg sum_list_nonneg less_imp_le)

lemma outer_pos:
  assumes "\<forall>x\<in>set v. (0::real) < x"
  shows "\<forall>x\<in>set (concat (map (\<lambda>x. map (\<lambda>y. x * y) v) v)). 0 < x"
  using assms by auto

lemma upt5: "[0..<5] = [0, 1, 2, 3, 4]"
  by (simp add: upt_rec)

lemma outer_symmetric:
  fixes a :: real
  shows "np_transpose (Mat (map (\<lambda>x. map (\<lambda>y. h (x * y)) [a, b, c, d, e]) [a, b, c, d, e]))
     = Mat (map (\<lambda>x. map (\<lambda>y. h (x * y)) [a, b, c, d, e]) [a, b, c, d, e])"
  by (simp add: np_transpose_def ncols_def upt5 mult.commute)

lemma clip_negative_nonneg: "\<forall>x\<in>set (entries (clip_negative a)). 0 \<le> x"
  by (auto simp: clip_negative_def entries_amap)

lemma np_plus_single: "np_plus (Mat [[x]]) (Mat [[y]]) = Inr (Mat [[x + y]])"
  by (simp add: np_plus_def np_binop_def ncols_def bcast_ok_def bcast_dim_def stretch_def Let_def)

lemma components_Data: "components (map Data ys) = Some ys"
  by (induction ys) simp_all

lemma sqrt_25: "sqrt 25 = 5"
  using real_sqrt_abs [of 5] by simp


section \<open>Rounding\<close>

text \<open>
  The rounded value is within half a unit in the last place of the exact one: for a
  number in the normal range the relative error is at most \<open>2^-53\<close>.
\<close>

lemma rne_error: "\<bar>of_int (rne x) - x\<bar> \<le> 1 / 2"
  unfolding rne_def Let_def by (auto simp: abs_if) linarith+

lemma binade_bounds:
  assumes "x \<noteq> 0"
  shows "2 powr of_int \<lfloor>log 2 \<bar>x\<bar>\<rfloor> \<le> \<bar>x\<bar>" "\<bar>x\<bar> < 2 powr (of_int \<lfloor>log 2 \<bar>x\<bar>\<rfloor> + 1)"
proof -
  have pos: "0 < \<bar>x\<bar>" using assms by simp
  show "2 powr of_int \<lfloor>log 2 \<bar>x\<bar>\<rfloor> \<le> \<bar>x\<bar>"
    using le_log_iff [of 2 "\<bar>x\<bar>" "of_int \<lfloor>log 2 \<bar>x\<bar>\<rfloor>"] pos by simp
  have "log 2 \<bar>x\<bar> < of_int \<lfloor>log 2 \<bar>x\<bar>\<rfloor> + 1" by linarith
  then show "\<bar>x\<bar> < 2 powr (of_int \<lfloor>log 2 \<bar>x\<bar>\<rfloor> + 1)"
    using log_less_iff [of 2 "\<bar>x\<bar>" "of_int \<lfloor>log 2 \<bar>x\<bar>\<rfloor> + 1"] pos by simp
qed

lemma round64_error:
  assumes lo: "2 powr (- 1022) \<le> \<bar>x\<bar>" and hi: "\<bar>x\<bar> < 2 powr 1023"
  shows "\<exists>y. round64 x = Fin y \<and> \<bar>y - x\<bar> \<le> \<bar>x\<bar> * 2 powr (- 53)"
proof -
  have x0: "x \<noteq> 0" using lo by (auto simp: abs_if split: if_splits)
  define e where "e = \<lfloor>log 2 \<bar>x\<bar>\<rfloor>"
  have pos: "0 < \<bar>x\<bar>" using x0 by simp
  have "- 1022 \<le> log 2 \<bar>x\<bar>"
    using le_log_iff [of 2 "\<bar>x\<bar>" "- 1022"] lo pos by simp
  then have e_lo: "- 1022 \<le> e"
    unfolding e_def by (simp add: le_floor_iff)
  then have b: "binade x = e"
    by (simp add: binade_def e_def)
  have e1: "2 powr of_int e \<le> \<bar>x\<bar>" and e2: "\<bar>x\<bar> < 2 powr (of_int e + 1)"
    using binade_bounds [OF x0] by (simp_all add: e_def)
  define q :: real where "q = 2 powr of_int (e - 52)"
  define y where "y = of_int (rne (x / q)) * q"
  have qpos: "0 < q" by (simp add: q_def)
  have "y - x = (of_int (rne (x / q)) - x / q) * q"
    using qpos by (simp add: y_def left_diff_distrib)
  then have "\<bar>y - x\<bar> = \<bar>of_int (rne (x / q)) - x / q\<bar> * q"
    using qpos by (simp add: abs_mult)
  also have "\<dots> \<le> 1 / 2 * q"
    using rne_error [of "x / q"] qpos by (intro mult_right_mono) simp_all
  also have "\<dots> = 2 powr of_int e * 2 powr (- 53)"
    by (simp add: q_def powr_add[symmetric] powr_minus[symmetric] powr_diff) 
  also have "\<dots> \<le> \<bar>x\<bar> * 2 powr (- 53)"
    using e1 by (intro mult_right_mono) simp_all
  finally have err: "\<bar>y - x\<bar> \<le> \<bar>x\<bar> * 2 powr (- 53)" .
  have "2 powr (- 53) < (1::real)"
    by (simp add: powr_minus field_simps)
  then have "\<bar>x\<bar> * 2 powr (- 53) < \<bar>x\<bar>" using pos by simp
  with err have "\<bar>y\<bar> < 2 * \<bar>x\<bar>" by linarith
  also have "\<dots> < 2 * 2 powr 1023" using hi by simp
  also have "\<dots> = 2 powr 1024"
    by (simp add: powr_add[symmetric] flip: powr_one')
  finally have fin: "\<not> 2 powr 1024 \<le> \<bar>y\<bar>" by simp
  have "round64 x = Fin y"
    using x0 fin by (simp add: round64_def b Let_def q_def y_def)
  with err show ?thesis by blast
qed


lemma floor_log2:
  assumes "0 < x" "2 powr of_int e \<le> x" "x < 2 powr (of_int e + 1)"
  shows "\<lfloor>log 2 x\<rfloor> = e"
proof -
  have "of_int e \<le> log 2 x"
    using le_log_iff [of 2 x "of_int e"] assms by simp
  moreover have "log 2 x < of_int e + 1"
    using log_less_iff [of 2 x "of_int e + 1"] assms by simp
  ultimately show ?thesis by (simp add: floor_eq_iff)
qed

lemma binade_tenth: "binade (1 / 10) = - 4"
proof -
  have "\<lfloor>log 2 (1 / 10 :: real)\<rfloor> = - 4"
    by (rule floor_log2) (simp_all add: powr_minus)
  then show ?thesis by (simp add: binade_def)
qed

lemma binade_half: "binade (1 / 2) = - 1"
proof -
  have "\<lfloor>log 2 (1 / 2 :: real)\<rfloor> = - 1"
    by (rule floor_log2) (simp_all add: powr_minus)
  then show ?thesis by (simp add: binade_def)
qed

lemma round64_small:
  fixes q :: real
  assumes "x \<noteq> 0"
    and "q = 2 powr of_int (binade x - 52)"
    and "rne (x / q) = m"
    and "\<bar>of_int m * q\<bar> \<le> 1"
  shows "round64 x = Fin (of_int m * q)"
proof -
  have "(1::real) < 2 powr 1024"
    by simp
  with assms(4) have "\<not> 2 powr 1024 \<le> \<bar>of_int m * q\<bar>"
    by linarith
  then show ?thesis
    using assms(1) by (simp only: round64_def Let_def assms(2)[symmetric] assms(3) if_False)
qed

lemma round64_tenth: "round64 (1 / 10) = Fin (3602879701896397 / 36028797018963968)"
proof -
  have q: "(1 / 72057594037927936 :: real) = 2 powr of_int (binade (1 / 10) - 52)"
    by (simp add: binade_tenth powr_minus)
  have r: "rne ((1 / 10) / (1 / 72057594037927936)) = 7205759403792794"
    by (simp add: rne_def Let_def)
  have s: "\<bar>of_int 7205759403792794 * (1 / 72057594037927936 :: real)\<bar> \<le> 1"
    by simp
  have "round64 (1 / 10) = Fin (of_int 7205759403792794 * (1 / 72057594037927936))"
    using q r s by (intro round64_small) simp_all
  then show ?thesis
    by simp
qed

lemma round64_half: "round64 (1 / 2) = Fin (1 / 2)"
proof -
  have q: "(1 / 9007199254740992 :: real) = 2 powr of_int (binade (1 / 2) - 52)"
    by (simp add: binade_half powr_minus)
  have r: "rne ((1 / 2) / (1 / 9007199254740992)) = 4503599627370496"
    by (simp add: rne_def Let_def)
  have s: "\<bar>of_int 4503599627370496 * (1 / 9007199254740992 :: real)\<bar> \<le> 1"
    by simp
  have "round64 (1 / 2) = Fin (of_int 4503599627370496 * (1 / 9007199254740992))"
    using q r s by (intro round64_small) simp_all
  then show ?thesis
    by simp
qed

lemma tenth_product:
  "(3602879701896397 / 36028797018963968) * (3602879701896397 / 36028797018963968) * (10::real)\<^sup>2 > 1"
  by simp

lemma truediv_bound:
  assumes lo: "1 / 2 ^ 1000 \<le> n" and hi: "n \<le> 2 ^ 1000"
  shows "\<exists>r. np_truediv 1 n = Fin r \<and> \<bar>r * n - 1\<bar> \<le> 1 / 2 ^ 53
           \<and> \<bar>r * r * n\<^sup>2 - 1\<bar> \<le> 1 / 2 ^ 51"
proof -
  have npos: "0 < n"
    using lo by (rule less_le_trans [rotated]) simp
  have inv_lo: "1 / 2 ^ 1000 \<le> 1 / n"
    using hi npos by (simp add: field_simps)
  have inv_hi: "1 / n \<le> 2 ^ 1000"
    using lo npos by (simp add: field_simps)
  have a: "2 powr (- 1022) \<le> \<bar>1 / n\<bar>"
  proof -
    have "(2::real) powr (- 1022) = 1 / 2 ^ 1022"
      by (simp add: powr_minus)
    also have "\<dots> \<le> (1::real) / 2 ^ 1000"
      by (intro divide_left_mono power_increasing) simp_all
    finally have "(2::real) powr (- 1022) \<le> 1 / 2 ^ 1000" .
    then have "2 powr (- 1022) \<le> 1 / n"
      by (rule order_trans [OF _ inv_lo])
    with npos show ?thesis by simp
  qed
  have b: "\<bar>1 / n\<bar> < 2 powr 1023"
  proof -
    have "(2::real) ^ 1000 < 2 ^ 1023"
      by (intro power_strict_increasing) simp_all
    also have "\<dots> = (2::real) powr 1023"
      by simp
    finally have "(2::real) ^ 1000 < 2 powr 1023" .
    then have "1 / n < 2 powr 1023"
      by (rule le_less_trans [OF inv_hi])
    with npos show ?thesis by simp
  qed
  from round64_error [OF a b] obtain r where
    r: "round64 (1 / n) = Fin r" and err: "\<bar>r - 1 / n\<bar> \<le> \<bar>1 / n\<bar> * 2 powr (- 53)"
    by blast
  have t: "np_truediv 1 n = Fin r"
    using npos r by (simp add: np_truediv_def)
  have p53: "(2::real) powr (- 53) = 1 / 2 ^ 53"
    by (simp add: powr_minus field_simps)
  have "r * n - 1 = (r - 1 / n) * n"
    using npos by (simp add: left_diff_distrib)
  then have "\<bar>r * n - 1\<bar> = \<bar>r - 1 / n\<bar> * n"
    using npos by (simp add: abs_mult)
  also have "\<dots> \<le> (\<bar>1 / n\<bar> * 2 powr (- 53)) * n"
    using err npos by (intro mult_right_mono) simp_all
  also have "\<dots> = 1 / 2 ^ 53"
    using npos by (simp add: p53)
  finally have d: "\<bar>r * n - 1\<bar> \<le> 1 / 2 ^ 53" .
  define d where "d = r * n - 1"
  have dd: "\<bar>d\<bar> \<le> 1 / 2 ^ 53" using d by (simp add: d_def)
  have "r * r * n\<^sup>2 - 1 = 2 * d + d * d"
    by (simp add: d_def power2_eq_square algebra_simps)
  then have "\<bar>r * r * n\<^sup>2 - 1\<bar> = \<bar>2 * d + d * d\<bar>"
    by simp
  also have "\<dots> \<le> \<bar>2 * d\<bar> + \<bar>d * d\<bar>"
    by (rule abs_triangle_ineq)
  also have "\<dots> = 2 * \<bar>d\<bar> + \<bar>d\<bar> * \<bar>d\<bar>"
    by (simp add: abs_mult)
  also have "\<dots> \<le> 2 * (1 / 2 ^ 53) + (1 / 2 ^ 53) * (1 / 2 ^ 53)"
    using dd by (intro add_mono mult_mono) simp_all
  also have "\<dots> \<le> (1::real) / 2 ^ 51"
    by simp
  finally show ?thesis
    using t d by blast
qed

lemma np_truediv_two: "np_truediv 1 2 = Fin (1 / 2)"
  by (simp add: np_truediv_def round64_half)

lemma np_truediv_ten: "np_truediv 1 10 = Fin (3602879701896397 / 36028797018963968)"
  by (simp add: np_truediv_def round64_tenth)


section \<open>What each cell does\<close>

text \<open>
  For every cell: it finishes exactly when each of its library calls succeeds, and then
  the namespace is updated as stated.
\<close>

lemma load_cell_Inr:
  "run_all (load_cell L) s = Inr s' \<longleftrightarrow>
     (\<exists>d. SHAPES_get L = Inr d \<and> s' = s\<lparr>data := d, deblur.ig := geometry d\<rparr>)"
  unfolding load_cell_def by (auto simp: step_simps simp del: run_all.simps(2))

lemma gauss5_pos: "\<forall>x\<in>set gauss5. 0 < x"
  by (simp add: gauss5_def)

lemma window:
  "np_exp (np_div_scalar (np_neg (np_pow (np_arange (- 2) 3) 2)) 8) = Vec gauss5"
  by (simp add: np_arange_def upt5 np_pow_def np_neg_def np_div_scalar_def np_exp_def gauss5_def)

lemma column: "set_shape (Vec gauss5) (5, Suc 0) = Inr (Mat (map (\<lambda>x. [x]) gauss5))"
  by (simp add: set_shape_def upt5 gauss5_def)

lemma outer:
  "np_times (Mat (map (\<lambda>x. [x]) gauss5)) (np_transpose (Mat (map (\<lambda>x. [x]) gauss5))) =
     Inr (Mat (map (\<lambda>x. map (\<lambda>y. x * y) gauss5) gauss5))"
  by (simp add: np_times_def np_binop_def np_transpose_def ncols_def bcast_ok_def bcast_dim_def
      stretch_def Let_def gauss5_def)

lemma psf_cell_run:
  "run_all psf_cell s =
     Inr (s\<lparr>ks := 5, ksigma := 2, w := Mat (map (\<lambda>x. [x]) gauss5), PSF := psf5\<rparr>)"
  unfolding psf_cell_def psf5_def by (simp add: window column outer Let_def)

lemma psf_cell_Inr:
  "run_all psf_cell s = Inr s' \<longleftrightarrow>
     s' = s\<lparr>ks := 5, ksigma := 2, w := Mat (map (\<lambda>x. [x]) gauss5), PSF := psf5\<rparr>"
  by (auto simp: psf_cell_run)

lemma blur_cell_Inr:
  "run_all (blur_cell L) s = Inr s' \<longleftrightarrow>
     (\<exists>b bn. show2D L \<lparr>images = [Arr (PSF s)], titles = [''PSF'']\<rparr> = None
        \<and> operator_error L (BlurringOperator (PSF s) (deblur.ig s)) = None
        \<and> direct L (BlurringOperator (PSF s) (deblur.ig s)) (data s) = Inr b
        \<and> noise_gaussian L b 10 (1 / 10000) = Inr bn
        \<and> show2D L \<lparr>images = [Img bn], titles = [''Blurred+Noisy'']\<rparr> = None
        \<and> s' = s\<lparr>BOP := BlurringOperator (PSF s) (deblur.ig s), blurred_noisy := bn,
                  deblur.shown := deblur.shown s @
                     [\<lparr>images = [Arr (PSF s)], titles = [''PSF'']\<rparr>,
                      \<lparr>images = [Img bn], titles = [''Blurred+Noisy'']\<rparr>]\<rparr>)"
  unfolding blur_cell_def display_def by (auto simp: step_simps simp del: run_all.simps(2))

lemma fista_cell_Inr:
  "run_all (fista_cell L) s = Inr s' \<longleftrightarrow>
     (\<exists>x0 sol. function_error L (TotalVariation 10) = None
        \<and> function_error L (Scaled (5 / 100) (TotalVariation 10)) = None
        \<and> function_error L (LeastSquares (BOP s) (blurred_noisy s)) = None
        \<and> allocate L (deblur.ig s) (Some 0) = Inr x0
        \<and> algorithm_error L (FISTA x0 (LeastSquares (BOP s) (blurred_noisy s))
              (Scaled (5 / 100) (TotalVariation 10)) 200 50) = None
        \<and> run L (FISTA x0 (LeastSquares (BOP s) (blurred_noisy s))
              (Scaled (5 / 100) (TotalVariation 10)) 200 50) None None = Inr sol
        \<and> s' = s\<lparr>deblur.alpha := 5 / 100, G := Scaled (5 / 100) (TotalVariation 10),
                  F := LeastSquares (BOP s) (blurred_noisy s),
                  fista := FISTA x0 (LeastSquares (BOP s) (blurred_noisy s))
                             (Scaled (5 / 100) (TotalVariation 10)) 200 50,
                  fista_solution := sol\<rparr>)"
  unfolding fista_cell_def by (auto simp: step_simps simp del: run_all.simps(2))

lemma result_cell_Inr:
  "run_all (result_cell L) s = Inr s' \<longleftrightarrow>
     (show2D L \<lparr>images = [Img (data s), Img (blurred_noisy s), Img (fista_solution s)],
             titles = [''Ground truth'', ''Noisy Data (Gaussian)'', ''Deblurred'']\<rparr> = None
      \<and> s' = s\<lparr>deblur.shown := deblur.shown s @
            [\<lparr>images = [Img (data s), Img (blurred_noisy s), Img (fista_solution s)],
             titles = [''Ground truth'', ''Noisy Data (Gaussian)'', ''Deblurred'']\<rparr>]\<rparr>)"
  unfolding result_cell_def display_def by (auto simp: step_simps simp del: run_all.simps(2))

lemmas deblur_cells = load_cell_Inr psf_cell_Inr blur_cell_Inr fista_cell_Inr result_cell_Inr

lemma deblurring_Inr:
  "run_all (deblurring_notebook L) s0 = Inr s \<longleftrightarrow>
     (\<exists>d b bn x0 sol.
        SHAPES_get L = Inr d
      \<and> show2D L \<lparr>images = [Arr psf5], titles = [''PSF'']\<rparr> = None
      \<and> operator_error L (BlurringOperator psf5 (geometry d)) = None
      \<and> direct L (BlurringOperator psf5 (geometry d)) d = Inr b
      \<and> noise_gaussian L b 10 (1 / 10000) = Inr bn
      \<and> show2D L \<lparr>images = [Img bn], titles = [''Blurred+Noisy'']\<rparr> = None
      \<and> function_error L (TotalVariation 10) = None
      \<and> function_error L (Scaled (5 / 100) (TotalVariation 10)) = None
      \<and> function_error L (LeastSquares (BlurringOperator psf5 (geometry d)) bn) = None
      \<and> allocate L (geometry d) (Some 0) = Inr x0
      \<and> algorithm_error L (FISTA x0 (LeastSquares (BlurringOperator psf5 (geometry d)) bn)
              (Scaled (5 / 100) (TotalVariation 10)) 200 50) = None
      \<and> run L (FISTA x0 (LeastSquares (BlurringOperator psf5 (geometry d)) bn)
              (Scaled (5 / 100) (TotalVariation 10)) 200 50) None None = Inr sol
      \<and> show2D L \<lparr>images = [Img d, Img bn, Img sol],
             titles = [''Ground truth'', ''Noisy Data (Gaussian)'', ''Deblurred'']\<rparr> = None
      \<and> s = s0\<lparr>data := d, deblur.ig := geometry d, ks := 5, ksigma := 2,
                w := Mat (map (\<lambda>x. [x]) gauss5), PSF := psf5,
                BOP := BlurringOperator psf5 (geometry d), blurred_noisy := bn,
                deblur.alpha := 5 / 100, G := Scaled (5 / 100) (TotalVariation 10),
                F := LeastSquares (BlurringOperator psf5 (geometry d)) bn,
                fista := FISTA x0 (LeastSquares (BlurringOperator psf5 (geometry d)) bn)
                           (Scaled (5 / 100) (TotalVariation 10)) 200 50,
                fista_solution := sol,
                deblur.shown := deblur.shown s0 @
                  [\<lparr>images = [Arr psf5], titles = [''PSF'']\<rparr>,
                   \<lparr>images = [Img bn], titles = [''Blurred+Noisy'']\<rparr>,
                   \<lparr>images = [Img d, Img bn, Img sol],
                    titles = [''Ground truth'', ''Noisy Data (Gaussian)'', ''Deblurred'']\<rparr>]\<rparr>)"
  unfolding deblurring_notebook_def run_all_append and_then_eq_Inr deblur_cells
  by auto

lemma geometry_cell_Inr:
  "run_all (geometry_cell L) s = Inr s' \<longleftrightarrow>
     (\<exists>a1 a2 a3 i p. create_Parallel2D L = Inr a1
        \<and> set_angles L a1 (np_linspace 0 180 180) = Inr a2
        \<and> set_panel L a2 256 (1 / 10) = Inr a3 \<and> get_ImageGeometry L a3 = Inr i
        \<and> TomoPhantom_get_ImageData L 12 i = Inr p
        \<and> s' = s\<lparr>N := 256, detectors := 256, angles := np_linspace 0 180 180,
                  ag := a3, ig := i, phantom := p\<rparr>)"
  unfolding geometry_cell_def by (auto simp: step_simps simp del: run_all.simps(2))

lemma sinogram_cell_Inr:
  "run_all (sinogram_cell L) s = Inr s' \<longleftrightarrow>
     (\<exists>y sh n z a c. operator_error L (ProjectionOperator (ig s) (ag s) ''gpu'') = None
        \<and> direct L (ProjectionOperator (ig s) (ag s) ''gpu'') (phantom s) = Inr y
        \<and> shape L (ag s) = Inr sh \<and> random_normal L 0 (5 / 10) sh = Inr n
        \<and> allocate L (ag s) None = Inr z
        \<and> np_plus n (array y) = Inr a \<and> fill L z a = Inr c
        \<and> show2D L
            \<lparr>images = [Img (phantom s), Img y, Img (c\<lparr>array := clip_negative (array c)\<rparr>)],
             titles = [''Ground Truth'', ''Sinogram'', ''Noisy Sinogram'']\<rparr> = None
        \<and> s' = s\<lparr>A := ProjectionOperator (ig s) (ag s) ''gpu'', sino := y,
                  gaussian_var := 5 / 10, gaussian_mean := 0, n1 := n,
                  noisy_sino := c\<lparr>array := clip_negative (array c)\<rparr>,
                  shown := shown s @
                    [\<lparr>images = [Img (phantom s), Img y,
                                 Img (c\<lparr>array := clip_negative (array c)\<rparr>)],
                      titles = [''Ground Truth'', ''Sinogram'', ''Noisy Sinogram'']\<rparr>]\<rparr>)"
  unfolding sinogram_cell_def tomo_display_def
  by (auto simp: step_simps simp del: run_all.simps(2))

lemma fbp_cell_Inr:
  "run_all (fbp_cell L) s = Inr s' \<longleftrightarrow>
     (\<exists>r. processor_error L (FBP (ig s) (ag s) ''cpu'') = None
        \<and> process L (FBP (ig s) (ag s) ''cpu'') (noisy_sino s) = Inr r
        \<and> show2D L \<lparr>images = [Img (phantom s), Img r],
             titles = [''Ground Truth'', ''FBP reconstruction'']\<rparr> = None
        \<and> s' = s\<lparr>fbp_recon := r,
                  shown := shown s @ [\<lparr>images = [Img (phantom s), Img r],
             titles = [''Ground Truth'', ''FBP reconstruction'']\<rparr>]\<rparr>)"
  unfolding fbp_cell_def tomo_display_def by (auto simp: step_simps simp del: run_all.simps(2))

lemma pdhg_cell_Inr:
  "run_all (pdhg_cell L) s = Inr s' \<longleftrightarrow>
     (\<exists>nK sol.
        operator_error L (GradientOperator (ig s)) = None
      \<and> operator_error L (BlockOperator (A s) (GradientOperator (ig s))) = None
      \<and> function_error L (L2NormSquared (noisy_sino s)) = None
      \<and> function_error L (Scaled (5 / 10) (L2NormSquared (noisy_sino s))) = None
      \<and> function_error L MixedL21Norm = None
      \<and> function_error L (Scaled (1 / 10) MixedL21Norm) = None
      \<and> function_error L (BlockFunction (Scaled (5 / 10) (L2NormSquared (noisy_sino s)))
            (Scaled (1 / 10) MixedL21Norm)) = None
      \<and> function_error L (IndicatorBox 0) = None
      \<and> operator_norm L (BlockOperator (A s) (GradientOperator (ig s))) = Inr nK
      \<and> algorithm_error L (PDHG (BlockFunction (Scaled (5 / 10) (L2NormSquared (noisy_sino s)))
            (Scaled (1 / 10) MixedL21Norm)) (IndicatorBox 0)
            (BlockOperator (A s) (GradientOperator (ig s)))
            (np_truediv 1 nK) (np_truediv 1 nK) 200 50) = None
      \<and> run L (PDHG (BlockFunction (Scaled (5 / 10) (L2NormSquared (noisy_sino s)))
            (Scaled (1 / 10) MixedL21Norm)) (IndicatorBox 0)
            (BlockOperator (A s) (GradientOperator (ig s)))
            (np_truediv 1 nK) (np_truediv 1 nK) 200 50)
            None (Some 2) = Inr sol
      \<and> s' = s\<lparr>Grad := GradientOperator (ig s),
                K := BlockOperator (A s) (GradientOperator (ig s)),
                alpha := 1 / 10,
                f1 := Scaled (5 / 10) (L2NormSquared (noisy_sino s)),
                f2 := Scaled (1 / 10) MixedL21Norm,
                f := BlockFunction (Scaled (5 / 10) (L2NormSquared (noisy_sino s)))
                       (Scaled (1 / 10) MixedL21Norm),
                g := IndicatorBox 0, normK := nK,
                sigma := np_truediv 1 nK, tau := np_truediv 1 nK,
                pdhg := PDHG (BlockFunction (Scaled (5 / 10) (L2NormSquared (noisy_sino s)))
                          (Scaled (1 / 10) MixedL21Norm)) (IndicatorBox 0)
                          (BlockOperator (A s) (GradientOperator (ig s)))
                          (np_truediv 1 nK) (np_truediv 1 nK) 200 50,
                pdhg_solution := sol\<rparr>)"
  unfolding pdhg_cell_def by (auto simp: step_simps simp del: run_all.simps(2))

lemma compare_cell_Inr:
  "run_all (compare_cell L) s = Inr s' \<longleftrightarrow>
     (\<exists>l1 l2 l3.
        show2D L \<lparr>images = [Img (pdhg_solution s), Img (fbp_recon s), Img (phantom s)],
             titles = [''TV regularisation'', ''FBP'', ''Ground Truth'']\<rparr> = None
      \<and> plt L plt_figure = None
      \<and> get_slice L (phantom s) (nat \<lfloor>real (N s) / 2\<rfloor>) = Inr l1
      \<and> plt L (plt_plot (array l1) ''Ground Truth'') = None
      \<and> get_slice L (fbp_recon s) (nat \<lfloor>real (N s) / 2\<rfloor>) = Inr l2
      \<and> plt L (plt_plot (array l2) ''FBP'') = None
      \<and> get_slice L (pdhg_solution s) (nat \<lfloor>real (N s) / 2\<rfloor>) = Inr l3
      \<and> plt L (plt_plot (array l3) ''TV'') = None
      \<and> plt L plt_legend = None
      \<and> plt L (plt_title ''Middle Line Profiles'') = None
      \<and> plt L plt_show = None
      \<and> s' = s\<lparr>shown := shown s @
            [\<lparr>images = [Img (pdhg_solution s), Img (fbp_recon s), Img (phantom s)],
             titles = [''TV regularisation'', ''FBP'', ''Ground Truth'']\<rparr>]\<rparr>)"
  unfolding compare_cell_def tomo_display_def middle_line_def
  by (auto simp: step_simps simp del: run_all.simps(2))

lemmas tomo_cells =
  geometry_cell_Inr sinogram_cell_Inr fbp_cell_Inr pdhg_cell_Inr compare_cell_Inr

lemma tomography_Inr:
  "run_all (tomography_notebook L) s0 = Inr s \<longleftrightarrow>
     (\<exists>s1 s2 s3 s4. run_all (geometry_cell L) s0 = Inr s1
        \<and> run_all (sinogram_cell L) s1 = Inr s2
        \<and> run_all (fbp_cell L) s2 = Inr s3 \<and> run_all (pdhg_cell L) s3 = Inr s4
        \<and> run_all (compare_cell L) s4 = Inr s)"
  unfolding tomography_notebook_def run_all_append and_then_eq_Inr by blast


text \<open>
  For every cell of the second notebook, the other half: the cell raises \<open>e\<close>, or finishes
  and is followed by something (\<open>R\<close>), exactly when the first call that fails raises \<open>e\<close>,
  or all calls succeed and \<open>R\<close> holds of the namespace the cell leaves.
\<close>

lemma geometry_cell_fails:
  "(run_all (geometry_cell L) s = Inl e \<or> (\<exists>s1. run_all (geometry_cell L) s = Inr s1 \<and> R s1)) \<longleftrightarrow>
      create_Parallel2D L = Inl e
      \<or> (\<exists>a1. create_Parallel2D L = Inr a1 \<and>
        (set_angles L a1 (np_linspace 0 180 180) = Inl e
       \<or> (\<exists>a2. set_angles L a1 (np_linspace 0 180 180) = Inr a2 \<and>
         (set_panel L a2 256 (1 / 10) = Inl e
        \<or> (\<exists>a3. set_panel L a2 256 (1 / 10) = Inr a3 \<and>
          (get_ImageGeometry L a3 = Inl e
         \<or> (\<exists>i. get_ImageGeometry L a3 = Inr i \<and>
           (TomoPhantom_get_ImageData L 12 i = Inl e
          \<or> (\<exists>p. TomoPhantom_get_ImageData L 12 i = Inr p \<and>
            R (s\<lparr>N := 256, detectors := 256, angles := np_linspace 0 180 180, ag := a3, ig := i, phantom := p\<rparr>))))))))))"
  unfolding geometry_cell_def
  by (auto simp add: fail_simps step_simps simp del: run_all.simps(2))

lemma sinogram_cell_fails:
  "(run_all (sinogram_cell L) s = Inl e \<or> (\<exists>s1. run_all (sinogram_cell L) s = Inr s1 \<and> R s1)) \<longleftrightarrow>
      operator_error L (ProjectionOperator (ig s) (ag s) ''gpu'') = Some e
      \<or> (operator_error L (ProjectionOperator (ig s) (ag s) ''gpu'') = None \<and>
        (direct L (ProjectionOperator (ig s) (ag s) ''gpu'') (phantom s) = Inl e
       \<or> (\<exists>y. direct L (ProjectionOperator (ig s) (ag s) ''gpu'') (phantom s) = Inr y \<and>
         (shape L (ag s) = Inl e
        \<or> (\<exists>sh. shape L (ag s) = Inr sh \<and>
          (random_normal L 0 (5 / 10) sh = Inl e
         \<or> (\<exists>n. random_normal L 0 (5 / 10) sh = Inr n \<and>
           (allocate L (ag s) None = Inl e
          \<or> (\<exists>z. allocate L (ag s) None = Inr z \<and>
            (np_plus n (array y) = Inl e
           \<or> (\<exists>a. np_plus n (array y) = Inr a \<and>
             (fill L z a = Inl e
            \<or> (\<exists>c. fill L z a = Inr c \<and>
              (show2D L \<lparr>images = [Img (phantom s), Img y, Img (c\<lparr>array := clip_negative (array c)\<rparr>)], titles = [''Ground Truth'', ''Sinogram'', ''Noisy Sinogram'']\<rparr> = Some e
             \<or> (show2D L \<lparr>images = [Img (phantom s), Img y, Img (c\<lparr>array := clip_negative (array c)\<rparr>)], titles = [''Ground Truth'', ''Sinogram'', ''Noisy Sinogram'']\<rparr> = None \<and>
               R (s\<lparr>A := ProjectionOperator (ig s) (ag s) ''gpu'', sino := y, gaussian_var := 5 / 10, gaussian_mean := 0, n1 := n, noisy_sino := c\<lparr>array := clip_negative (array c)\<rparr>, shown := shown s @ [\<lparr>images = [Img (phantom s), Img y, Img (c\<lparr>array := clip_negative (array c)\<rparr>)], titles = [''Ground Truth'', ''Sinogram'', ''Noisy Sinogram'']\<rparr>]\<rparr>))))))))))))))))"
  unfolding sinogram_cell_def tomo_display_def
  by (auto simp add: fail_simps step_simps simp del: run_all.simps(2))

lemma fbp_cell_fails:
  "(run_all (fbp_cell L) s = Inl e \<or> (\<exists>s1. run_all (fbp_cell L) s = Inr s1 \<and> R s1)) \<longleftrightarrow>
      processor_error L (FBP (ig s) (ag s) ''cpu'') = Some e
      \<or> (processor_error L (FBP (ig s) (ag s) ''cpu'') = None \<and>
        (process L (FBP (ig s) (ag s) ''cpu'') (noisy_sino s) = Inl e
       \<or> (\<exists>r. process L (FBP (ig s) (ag s) ''cpu'') (noisy_sino s) = Inr r \<and>
         (show2D L \<lparr>images = [Img (phantom s), Img r], titles = [''Ground Truth'', ''FBP reconstruction'']\<rparr> = Some e
        \<or> (show2D L \<lparr>images = [Img (phantom s), Img r], titles = [''Ground Truth'', ''FBP reconstruction'']\<rparr> = None \<and>
          R (s\<lparr>fbp_recon := r, shown := shown s @ [\<lparr>images = [Img (phantom s), Img r], titles = [''Ground Truth'', ''FBP reconstruction'']\<rparr>]\<rparr>))))))"
  unfolding fbp_cell_def tomo_display_def
  by (auto simp add: fail_simps step_simps simp del: run_all.simps(2))

lemma pdhg_cell_fails:
  "(run_all (pdhg_cell L) s = Inl e \<or> (\<exists>s1. run_all (pdhg_cell L) s = Inr s1 \<and> R s1)) \<longleftrightarrow>
      operator_error L (GradientOperator (ig s)) = Some e
      \<or> (operator_error L (GradientOperator (ig s)) = None \<and>
        (operator_error L (BlockOperator (A s) (GradientOperator (ig s))) = Some e
       \<or> (operator_error L (BlockOperator (A s) (GradientOperator (ig s))) = None \<and>
         (function_error L (L2NormSquared (noisy_sino s)) = Some e
        \<or> (function_error L (L2NormSquared (noisy_sino s)) = None \<and>
          (function_error L (Scaled (5 / 10) (L2NormSquared (noisy_sino s))) = Some e
         \<or> (function_error L (Scaled (5 / 10) (L2NormSquared (noisy_sino s))) = None \<and>
           (function_error L MixedL21Norm = Some e
          \<or> (function_error L MixedL21Norm = None \<and>
            (function_error L (Scaled (1 / 10) MixedL21Norm) = Some e
           \<or> (function_error L (Scaled (1 / 10) MixedL21Norm) = None \<and>
             (function_error L (BlockFunction (Scaled (5 / 10) (L2NormSquared (noisy_sino s))) (Scaled (1 / 10) MixedL21Norm)) = Some e
            \<or> (function_error L (BlockFunction (Scaled (5 / 10) (L2NormSquared (noisy_sino s))) (Scaled (1 / 10) MixedL21Norm)) = None \<and>
              (function_error L (IndicatorBox 0) = Some e
             \<or> (function_error L (IndicatorBox 0) = None \<and>
               (operator_norm L (BlockOperator (A s) (GradientOperator (ig s))) = Inl e
              \<or> (\<exists>nK. operator_norm L (BlockOperator (A s) (GradientOperator (ig s))) = Inr nK \<and>
                (algorithm_error L (PDHG (BlockFunction (Scaled (5 / 10) (L2NormSquared (noisy_sino s))) (Scaled (1 / 10) MixedL21Norm)) (IndicatorBox 0) (BlockOperator (A s) (GradientOperator (ig s))) (np_truediv 1 nK) (np_truediv 1 nK) 200 50) = Some e
               \<or> (algorithm_error L (PDHG (BlockFunction (Scaled (5 / 10) (L2NormSquared (noisy_sino s))) (Scaled (1 / 10) MixedL21Norm)) (IndicatorBox 0) (BlockOperator (A s) (GradientOperator (ig s))) (np_truediv 1 nK) (np_truediv 1 nK) 200 50) = None \<and>
                 (run L (PDHG (BlockFunction (Scaled (5 / 10) (L2NormSquared (noisy_sino s))) (Scaled (1 / 10) MixedL21Norm)) (IndicatorBox 0) (BlockOperator (A s) (GradientOperator (ig s))) (np_truediv 1 nK) (np_truediv 1 nK) 200 50) None (Some 2) = Inl e
                \<or> (\<exists>sol. run L (PDHG (BlockFunction (Scaled (5 / 10) (L2NormSquared (noisy_sino s))) (Scaled (1 / 10) MixedL21Norm)) (IndicatorBox 0) (BlockOperator (A s) (GradientOperator (ig s))) (np_truediv 1 nK) (np_truediv 1 nK) 200 50) None (Some 2) = Inr sol \<and>
                  R (s\<lparr>Grad := GradientOperator (ig s), K := BlockOperator (A s) (GradientOperator (ig s)), alpha := 1 / 10, f1 := Scaled (5 / 10) (L2NormSquared (noisy_sino s)), f2 := Scaled (1 / 10) MixedL21Norm, f := BlockFunction (Scaled (5 / 10) (L2NormSquared (noisy_sino s))) (Scaled (1 / 10) MixedL21Norm), g := IndicatorBox 0, normK := nK, sigma := np_truediv 1 nK, tau := np_truediv 1 nK, pdhg := PDHG (BlockFunction (Scaled (5 / 10) (L2NormSquared (noisy_sino s))) (Scaled (1 / 10) MixedL21Norm)) (IndicatorBox 0) (BlockOperator (A s) (GradientOperator (ig s))) (np_truediv 1 nK) (np_truediv 1 nK) 200 50, pdhg_solution := sol\<rparr>))))))))))))))))))))))"
  unfolding pdhg_cell_def
  by (auto simp add: fail_simps step_simps simp del: run_all.simps(2))

lemma compare_cell_fails:
  "run_all (compare_cell L) s = Inl e \<longleftrightarrow>
      show2D L \<lparr>images = [Img (pdhg_solution s), Img (fbp_recon s), Img (phantom s)], titles = [''TV regularisation'', ''FBP'', ''Ground Truth'']\<rparr> = Some e
      \<or> (show2D L \<lparr>images = [Img (pdhg_solution s), Img (fbp_recon s), Img (phantom s)], titles = [''TV regularisation'', ''FBP'', ''Ground Truth'']\<rparr> = None \<and>
        (plt L plt_figure = Some e
       \<or> (plt L plt_figure = None \<and>
         (get_slice L (phantom s) (nat \<lfloor>real (N s) / 2\<rfloor>) = Inl e
        \<or> (\<exists>l1. get_slice L (phantom s) (nat \<lfloor>real (N s) / 2\<rfloor>) = Inr l1 \<and>
          (plt L (plt_plot (array l1) ''Ground Truth'') = Some e
         \<or> (plt L (plt_plot (array l1) ''Ground Truth'') = None \<and>
           (get_slice L (fbp_recon s) (nat \<lfloor>real (N s) / 2\<rfloor>) = Inl e
          \<or> (\<exists>l2. get_slice L (fbp_recon s) (nat \<lfloor>real (N s) / 2\<rfloor>) = Inr l2 \<and>
            (plt L (plt_plot (array l2) ''FBP'') = Some e
           \<or> (plt L (plt_plot (array l2) ''FBP'') = None \<and>
             (get_slice L (pdhg_solution s) (nat \<lfloor>real (N s) / 2\<rfloor>) = Inl e
            \<or> (\<exists>l3. get_slice L (pdhg_solution s) (nat \<lfloor>real (N s) / 2\<rfloor>) = Inr l3 \<and>
              (plt L (plt_plot (array l3) ''TV'') = Some e
             \<or> (plt L (plt_plot (array l3) ''TV'') = None \<and>
               (plt L plt_legend = Some e
              \<or> (plt L plt_legend = None \<and>
                (plt L (plt_title ''Middle Line Profiles'') = Some e
               \<or> (plt L (plt_title ''Middle Line Profiles'') = None \<and>
                 (plt L plt_show = Some e))))))))))))))))))))"
  unfolding compare_cell_def tomo_display_def middle_line_def
  by (auto simp add: fail_simps step_simps simp del: run_all.simps(2))


section \<open>The notebooks on the stand-in library\<close>

lemma demo_deblurring_run:
  "run_all (deblurring_notebook demo_lib) deblur_start = Inr deblur_end"
proof -
  have "\<exists>s. run_all (deblurring_notebook demo_lib) deblur_start = Inr s"
    unfolding deblurring_Inr by (simp add: demo_lib_def unit_image_def)
  then show ?thesis
    unfolding deblur_end_def by auto
qed

lemma demo_tomography_run:
  "run_all (tomography_notebook demo_lib) tomo_start = Inr tomo_end"
proof -
  have "\<exists>s. run_all (tomography_notebook demo_lib) tomo_start = Inr s"
    unfolding tomography_Inr tomo_cells
    by (simp add: demo_lib_def unit_image_def np_plus_single)
  then show ?thesis
    unfolding tomo_end_def by auto
qed

lemma demo_tomography_values:
  assumes "run_all (tomography_notebook demo_lib) tomo_start = Inr s"
  shows "A s = ProjectionOperator () () ''gpu''"
    "Grad s = GradientOperator ()"
    "n1 s = Mat [[- 1]]"
    "sino s = unit_image 0"
    "noisy_sino s = unit_image 0"
    "normK s = 2" "sigma s = Fin (1 / 2)" "tau s = Fin (1 / 2)"
  using assms unfolding tomography_Inr tomo_cells
  by (auto simp: demo_lib_def unit_image_def np_plus_single clip_negative_def np_truediv_two)

lemmas tomo_end_fields = demo_tomography_values [OF demo_tomography_run]

lemma ten_tomography_run:
  "run_all (tomography_notebook ten_lib) tomo_start = Inr tomo_end_ten"
proof -
  have "\<exists>s. run_all (tomography_notebook ten_lib) tomo_start = Inr s"
    unfolding tomography_Inr tomo_cells
    by (simp add: ten_lib_def demo_lib_def unit_image_def np_plus_single)
  then show ?thesis
    unfolding tomo_end_ten_def by auto
qed

lemma ten_tomography_values:
  assumes "run_all (tomography_notebook ten_lib) tomo_start = Inr s"
  shows "normK s = 10"
    "sigma s = Fin (3602879701896397 / 36028797018963968)"
    "tau s = Fin (3602879701896397 / 36028797018963968)"
  using assms unfolding tomography_Inr tomo_cells
  by (auto simp: ten_lib_def demo_lib_def unit_image_def np_plus_single np_truediv_ten)

lemmas tomo_end_ten_fields = ten_tomography_values [OF ten_tomography_run]


section \<open>The point spread function\<close>

text \<open>
  \<^bold>\<open>Claim C8.\<close> From any namespace, the seven statements that build the point spread
  function finish, and the \<open>PSF\<close> they leave is a 5\<times>5 matrix that equals its transpose, has
  only positive entries, and sums to 1. It is the outer product \<open>Q = w * transpose(w)\<close> of
  the window divided by its own sum, so the earlier division by the sum of squares has no
  effect on it. Arithmetic is on real numbers.
\<close>

theorem psf_symmetric_positive_normalised:
  fixes s0 :: "'g deblur"
  shows "\<exists>s P Q. run_all psf_cell s0 = Inr s \<and> PSF s = Mat P
     \<and> length P = 5 \<and> (\<forall>r\<in>set P. length r = 5)
     \<and> np_transpose (PSF s) = PSF s
     \<and> (\<forall>x\<in>set (entries (PSF s)). 0 < x)
     \<and> np_sum (PSF s) = 1
     \<and> np_times (w s) (np_transpose (w s)) = Inr Q \<and> PSF s = np_div_scalar Q (np_sum Q)"
proof -
  define Q where "Q = Mat (map (\<lambda>x. map (\<lambda>y. x * y) gauss5) gauss5)"
  define c1 where "c1 = np_sum (np_pow Q 2)"
  define Q1 where "Q1 = np_div_scalar Q c1"
  define s where
    "s = s0\<lparr>ks := 5, ksigma := 2, w := Mat (map (\<lambda>x. [x]) gauss5), PSF := psf5\<rparr>"
  have run: "run_all psf_cell s0 = Inr s"
    by (simp add: psf_cell_run s_def)
  have psf: "PSF s = np_div_scalar Q1 (np_sum Q1)"
    by (simp add: s_def psf5_def Q1_def c1_def Q_def Let_def)
  have Qpos: "\<forall>x\<in>set (entries Q). 0 < x"
    unfolding Q_def entries.simps by (rule outer_pos [OF gauss5_pos])
  have Qne: "entries Q \<noteq> []"
    by (simp add: Q_def gauss5_def)
  have sumQ: "0 < np_sum Q"
    unfolding np_sum_def by (rule sum_list_pos_real [OF Qne Qpos])
  have "0 < np_sum (np_pow Q 2)"
    unfolding np_sum_def np_pow_def entries_amap
    using Qne Qpos by (intro sum_list_pos_real) auto
  then have c1: "0 < c1"
    by (simp add: c1_def)
  have sumQ1: "0 < np_sum Q1"
    using sumQ c1 by (simp add: Q1_def np_sum_div_scalar)
  have one: "np_sum (PSF s) = 1"
    using sumQ1 by (simp add: psf np_sum_div_scalar)
  have irrelevant: "PSF s = np_div_scalar Q (np_sum Q)"
    unfolding psf Q1_def using c1 by (intro renormalise) simp
  have pos: "\<forall>x\<in>set (entries (PSF s)). 0 < x"
    unfolding irrelevant np_div_scalar_def entries_amap using Qpos sumQ by auto
  have form: "PSF s = Mat (map (\<lambda>x. map (\<lambda>y. (x * y) / np_sum Q) gauss5) gauss5)"
    unfolding irrelevant by (simp add: Q_def np_div_scalar_def comp_def)
  have sym: "np_transpose (PSF s) = PSF s"
    unfolding form gauss5_def by (rule outer_symmetric)
  have prod: "np_times (w s) (np_transpose (w s)) = Inr Q"
    using outer by (simp add: s_def Q_def)
  have shape: "length (map (\<lambda>x. map (\<lambda>y. (x * y) / np_sum Q) gauss5) gauss5) = 5"
     "\<forall>r\<in>set (map (\<lambda>x. map (\<lambda>y. (x * y) / np_sum Q) gauss5) gauss5). length r = 5"
    by (simp_all add: gauss5_def)
  show ?thesis
    using run form shape sym pos one prod irrelevant by blast
qed

theorem psf_symmetric_positive_normalised_witness:
  "\<exists>s. run_all psf_cell deblur_start = Inr s \<and> np_sum (PSF s) = 1
      \<and> np_transpose (PSF s) = PSF s"
  using psf_symmetric_positive_normalised [of deblur_start] by blast


section \<open>The deblurring notebook\<close>

text \<open>
  What the first notebook hands to FISTA and what it displays: the initial image is
  \<^verbatim>\<open>ig.allocate(0)\<close>, the smooth part is \<^verbatim>\<open>LeastSquares(BOP, blurred_noisy)\<close>, the other part
  is \<open>0.05\<close> times \<^verbatim>\<open>TotalVariation(max_iteration=10)\<close>, and the last figure shows the
  solution the run leaves. The objective is the sum of what the library takes
  \<^verbatim>\<open>LeastSquares(BOP, blurred_noisy)\<close> to mean and \<open>0.05\<close> times what it takes
  \<^verbatim>\<open>TotalVariation\<close> to mean; the notebook passes no scaling constant to \<^verbatim>\<open>LeastSquares\<close>.
\<close>

lemma deblurring_fista_setup:
  assumes "run_all (deblurring_notebook L) s0 = Inr s"
  shows "\<exists>x0. allocate L (deblur.ig s) (Some 0) = Inr x0
     \<and> BOP s = BlurringOperator (PSF s) (deblur.ig s)
     \<and> fista s = FISTA x0 (LeastSquares (BOP s) (blurred_noisy s))
                    (Scaled (5 / 100) (TotalVariation 10)) 200 50
     \<and> run L (fista s) None None = Inr (fista_solution s)
     \<and> last (deblur.shown s) =
         \<lparr>images = [Img (data s), Img (blurred_noisy s), Img (fista_solution s)],
          titles = [''Ground truth'', ''Noisy Data (Gaussian)'', ''Deblurred'']\<rparr>
     \<and> objective lin leaf (fista s) u =
         and_then (leaf (LeastSquares (BOP s) (blurred_noisy s)) (Data u)) (\<lambda>a.
         and_then (and_then (leaf (TotalVariation 10) (Data u)) (\<lambda>v. Inr (fmul (5 / 100) v)))
           (\<lambda>b. Inr (fadd a b)))"
  using assms unfolding deblurring_Inr by (auto simp: objective_def)

text \<open>
  \<^bold>\<open>Claim C6.\<close> When the first notebook finishes, \<open>blurred_noisy\<close> is the result of
  \<^verbatim>\<open>noise.gaussian(..., seed=10, var=0.0001)\<close> applied to \<^verbatim>\<open>BOP.direct(data)\<close>: the blur comes
  first and the noise second. The variable \<open>data\<close> still holds the image that was loaded,
  and that image is the first one of the last figure, under the title "Ground truth".
\<close>

theorem blur_then_noise:
  assumes "run_all (deblurring_notebook L) s0 = Inr s"
  shows "\<exists>b. SHAPES_get L = Inr (data s)
     \<and> BOP s = BlurringOperator (PSF s) (geometry (data s))
     \<and> direct L (BOP s) (data s) = Inr b
     \<and> noise_gaussian L b 10 (1 / 10000) = Inr (blurred_noisy s)
     \<and> last (deblur.shown s) =
         \<lparr>images = [Img (data s), Img (blurred_noisy s), Img (fista_solution s)],
          titles = [''Ground truth'', ''Noisy Data (Gaussian)'', ''Deblurred'']\<rparr>"
  using assms unfolding deblurring_Inr by auto

theorem blur_then_noise_witness:
  "run_all (deblurring_notebook demo_lib) deblur_start = Inr deblur_end
   \<and> SHAPES_get demo_lib = Inr (data deblur_end)
   \<and> last (deblur.shown deblur_end) =
         \<lparr>images = [Img (data deblur_end), Img (blurred_noisy deblur_end),
                    Img (fista_solution deblur_end)],
          titles = [''Ground truth'', ''Noisy Data (Gaussian)'', ''Deblurred'']\<rparr>"
  using blur_then_noise [OF demo_deblurring_run] demo_deblurring_run by blast


section \<open>The noisy sinogram\<close>

text \<open>
  \<^bold>\<open>Claim C10.\<close> When the second notebook finishes, every entry of \<open>noisy_sino\<close> is
  non-negative, and this \<open>noisy_sino\<close> is the container that was given to FBP and that the
  data term of PDHG is built on.
\<close>

theorem noisy_sinogram_nonnegative:
  assumes "run_all (tomography_notebook L) s0 = Inr s"
  shows "(\<forall>x\<in>set (entries (array (noisy_sino s))). 0 \<le> x)
     \<and> process L (FBP (ig s) (ag s) ''cpu'') (noisy_sino s) = Inr (fbp_recon s)
     \<and> f1 s = Scaled (5 / 10) (L2NormSquared (noisy_sino s))
     \<and> pdhg s = PDHG (BlockFunction (f1 s) (f2 s)) (g s) (K s) (sigma s) (tau s) 200 50"
proof -
  from assms obtain s1 s2 s3 s4 where
    c2: "run_all (sinogram_cell L) s1 = Inr s2"
    and c3: "run_all (fbp_cell L) s2 = Inr s3" and c4: "run_all (pdhg_cell L) s3 = Inr s4"
    and c5: "run_all (compare_cell L) s4 = Inr s"
    unfolding tomography_Inr by blast
  from c2 obtain c where n2: "noisy_sino s2 = c\<lparr>array := clip_negative (array c)\<rparr>"
    unfolding sinogram_cell_Inr by auto
  from c3 have n3: "noisy_sino s3 = noisy_sino s2" "tomo.ig s3 = tomo.ig s2" "ag s3 = ag s2"
    and p3: "process L (FBP (tomo.ig s2) (ag s2) ''cpu'') (noisy_sino s2) = Inr (fbp_recon s3)"
    unfolding fbp_cell_Inr by auto
  from c4 have n4: "noisy_sino s4 = noisy_sino s3" "tomo.ig s4 = tomo.ig s3" "ag s4 = ag s3"
     "fbp_recon s4 = fbp_recon s3"
    and f4: "f1 s4 = Scaled (5 / 10) (L2NormSquared (noisy_sino s3))"
     "pdhg s4 = PDHG (BlockFunction (f1 s4) (f2 s4)) (g s4) (K s4) (sigma s4) (tau s4) 200 50"
    unfolding pdhg_cell_Inr by auto
  from c5 have n5: "noisy_sino s = noisy_sino s4" "tomo.ig s = tomo.ig s4" "ag s = ag s4"
     "fbp_recon s = fbp_recon s4" "f1 s = f1 s4" "f2 s = f2 s4" "g s = g s4" "K s = K s4"
     "sigma s = sigma s4" "tau s = tau s4" "pdhg s = pdhg s4"
    unfolding compare_cell_Inr by auto
  show ?thesis
    using clip_negative_nonneg [of "array c"] p3 by (simp add: n2 n3 n4 f4 n5)
qed

theorem noisy_sinogram_nonnegative_witness:
  "run_all (tomography_notebook demo_lib) tomo_start = Inr tomo_end
   \<and> list_all (\<lambda>x. 0 \<le> x) (entries (array (noisy_sino tomo_end)))
   \<and> process demo_lib (FBP (ig tomo_end) (ag tomo_end) ''cpu'') (noisy_sino tomo_end) =
        Inr (fbp_recon tomo_end)"
  using noisy_sinogram_nonnegative [OF demo_tomography_run] demo_tomography_run
  by (simp add: list_all_iff)





section \<open>The PDHG set-up\<close>

text \<open>
  \<^bold>\<open>Claim C9\<close> says that both step sizes are \<open>1/||K||\<close> and that
  \<open>sigma * tau * ||K||^2 = 1\<close>. With a library whose operators have norm 10 the notebook
  ends with \<open>sigma = tau = 3602879701896397 / 2^55\<close>, the \<^verbatim>\<open>float64\<close> nearest to one tenth:
  it is not \<open>1/10\<close>, and \<open>sigma * tau * normK^2\<close> is greater than 1.
\<close>

theorem step_sizes_not_exact:
  "run_all (tomography_notebook ten_lib) tomo_start = Inr tomo_end_ten
   \<and> normK tomo_end_ten = 10
   \<and> sigma tomo_end_ten = Fin (3602879701896397 / 36028797018963968)
   \<and> tau tomo_end_ten = Fin (3602879701896397 / 36028797018963968)
   \<and> sigma tomo_end_ten \<noteq> Fin (1 / normK tomo_end_ten)
   \<and> 1 < (3602879701896397 / 36028797018963968) * (3602879701896397 / 36028797018963968)
         * (normK tomo_end_ten)\<^sup>2"
  by (simp add: ten_tomography_run tomo_end_ten_fields)

text \<open>
  \<^bold>\<open>Claim C9, amended.\<close> When the second notebook finishes, \<open>normK\<close> is what \<^verbatim>\<open>K.norm()\<close>
  returned for \<open>K = BlockOperator(A, Grad)\<close>, the two step sizes are equal, both the
  \<^verbatim>\<open>float64\<close> quotient \<^verbatim>\<open>1./normK\<close>, and PDHG is given them. For \<open>normK\<close> between \<open>2^-1000\<close> and
  \<open>2^1000\<close> the quotient is finite, \<open>sigma * normK\<close> is within \<open>2^-53\<close> of 1 and
  \<open>sigma * tau * normK^2\<close> within \<open>2^-51\<close> of 1.
\<close>

theorem step_sizes:
  assumes "run_all (tomography_notebook L) s0 = Inr s"
  shows "K s = BlockOperator (A s) (Grad s) \<and> operator_norm L (K s) = Inr (normK s)
     \<and> sigma s = np_truediv 1 (normK s) \<and> tau s = np_truediv 1 (normK s)
     \<and> sigma s = tau s
     \<and> (\<exists>hf hg. pdhg s = PDHG hf hg (K s) (sigma s) (tau s) 200 50)
     \<and> (1 / 2 ^ 1000 \<le> normK s \<and> normK s \<le> 2 ^ 1000 \<longrightarrow>
          (\<exists>r. sigma s = Fin r \<and> \<bar>r * normK s - 1\<bar> \<le> 1 / 2 ^ 53
              \<and> \<bar>r * r * (normK s)\<^sup>2 - 1\<bar> \<le> 1 / 2 ^ 51))"
proof -
  from assms obtain s3 s4 where
    c4: "run_all (pdhg_cell L) s3 = Inr s4" and c5: "run_all (compare_cell L) s4 = Inr s"
    unfolding tomography_Inr by blast
  from c4 have k4: "K s4 = BlockOperator (A s4) (Grad s4)"
     "operator_norm L (K s4) = Inr (normK s4)"
     "sigma s4 = np_truediv 1 (normK s4)" "tau s4 = np_truediv 1 (normK s4)"
     "\<exists>hf hg. pdhg s4 = PDHG hf hg (K s4) (sigma s4) (tau s4) 200 50"
    unfolding pdhg_cell_Inr by auto
  from c5 have n5: "K s = K s4" "A s = A s4" "Grad s = Grad s4" "normK s = normK s4"
     "sigma s = sigma s4" "tau s = tau s4" "pdhg s = pdhg s4"
    unfolding compare_cell_Inr by auto
  have bound: "\<exists>r. sigma s = Fin r \<and> \<bar>r * normK s - 1\<bar> \<le> 1 / 2 ^ 53
              \<and> \<bar>r * r * (normK s)\<^sup>2 - 1\<bar> \<le> 1 / 2 ^ 51"
    if "1 / 2 ^ 1000 \<le> normK s" "normK s \<le> 2 ^ 1000"
    using truediv_bound [OF that] by (simp add: n5 k4)
  have ks: "K s = BlockOperator (A s) (Grad s)" "operator_norm L (K s) = Inr (normK s)"
     "sigma s = np_truediv 1 (normK s)" "tau s = np_truediv 1 (normK s)" "sigma s = tau s"
     "\<exists>hf hg. pdhg s = PDHG hf hg (K s) (sigma s) (tau s) 200 50"
    using k4 by (simp_all add: n5)
  show ?thesis
    using ks bound by blast
qed

theorem step_sizes_witness:
  "run_all (tomography_notebook demo_lib) tomo_start = Inr tomo_end
   \<and> normK tomo_end = 2
   \<and> sigma tomo_end = Fin (1 / 2) \<and> tau tomo_end = Fin (1 / 2)
   \<and> (\<exists>r. sigma tomo_end = Fin r \<and> \<bar>r * r * (normK tomo_end)\<^sup>2 - 1\<bar> \<le> 1 / 2 ^ 51)"
proof -
  have lo: "1 / 2 ^ 1000 \<le> normK tomo_end"
  proof -
    have "(1::real) / 2 ^ 1000 \<le> 2" by simp
    then show ?thesis by (simp only: tomo_end_fields)
  qed
  have hi: "normK tomo_end \<le> 2 ^ 1000"
  proof -
    have "(2::real) ^ 1 \<le> 2 ^ 1000" by (intro power_increasing) simp_all
    then have "(2::real) \<le> 2 ^ 1000" by (simp only: power_one_right)
    then show ?thesis by (simp only: tomo_end_fields)
  qed
  from step_sizes [OF demo_tomography_run] lo hi
  have "\<exists>r. sigma tomo_end = Fin r \<and> \<bar>r * r * (normK tomo_end)\<^sup>2 - 1\<bar> \<le> 1 / 2 ^ 51"
    by blast
  then show ?thesis
    by (simp only: demo_tomography_run tomo_end_fields simp_thms)
qed

text \<open>
  \<^bold>\<open>Claim C2.\<close> When the second notebook finishes, PDHG holds \<open>K = BlockOperator(A, Grad)\<close>,
  \<open>f = BlockFunction(0.5 * L2NormSquared(b=noisy_sino), alpha * MixedL21Norm())\<close> with
  \<open>alpha = 0.1\<close>, and \<open>g = IndicatorBox(lower=0)\<close>. With the meanings of the section on
  function objects, at every image \<open>u\<close> where the projection gives \<open>Au\<close>, of the size of
  the sinogram, and the gradient gives the components \<open>Du\<close>, all of one size, the value
  \<open>f(Ku) + g(u)\<close> is \<open>1/2 ||Au - noisy_sino||^2 + 0.1 ||Du||_{2,1} + I_{u >= 0}(u)\<close>.
\<close>

theorem pdhg_splitting:
  assumes fin: "run_all (tomography_notebook L) s0 = Inr s"
    and hA: "lin (A s) u = Inr (Data Au)"
    and hD: "lin (Grad s) u = Inr (Block (map Data Du))"
    and size1: "length Au = length (entries (array (noisy_sino s)))"
    and size2: "same_size Du"
  shows "K s = BlockOperator (A s) (Grad s)
     \<and> f s = BlockFunction (Scaled (5 / 10) (L2NormSquared (noisy_sino s)))
                (Scaled (alpha s) MixedL21Norm)
     \<and> alpha s = 1 / 10
     \<and> g s = IndicatorBox 0
     \<and> pdhg s = PDHG (f s) (g s) (K s) (sigma s) (tau s) 200 50
     \<and> objective lin leaf (pdhg s) u =
         Inr (tv_objective (1 / 10) Au (entries (array (noisy_sino s))) Du u)"
proof -
  from fin obtain s1 s2 s3 s4 where
    c2: "run_all (sinogram_cell L) s1 = Inr s2"
    and c3: "run_all (fbp_cell L) s2 = Inr s3" and c4: "run_all (pdhg_cell L) s3 = Inr s4"
    and c5: "run_all (compare_cell L) s4 = Inr s"
    unfolding tomography_Inr by blast
  from c2 obtain i a where a2: "A s2 = ProjectionOperator i a ''gpu''"
    unfolding sinogram_cell_Inr by auto
  from c3 have a3: "A s3 = A s2"
    unfolding fbp_cell_Inr by auto
  from c4 have k4: "K s4 = BlockOperator (A s4) (Grad s4)" "A s4 = A s3"
     "Grad s4 = GradientOperator (tomo.ig s3)"
     "f s4 = BlockFunction (Scaled (5 / 10) (L2NormSquared (noisy_sino s4)))
                (Scaled (tomo.alpha s4) MixedL21Norm)"
     "tomo.alpha s4 = 1 / 10" "g s4 = IndicatorBox 0"
     "pdhg s4 = PDHG (f s4) (g s4) (K s4) (sigma s4) (tau s4) 200 50"
    unfolding pdhg_cell_Inr by auto
  from c5 have n5: "K s = K s4" "A s = A s4" "Grad s = Grad s4" "f s = f s4" "g s = g s4"
     "tomo.alpha s = tomo.alpha s4" "sigma s = sigma s4" "tau s = tau s4" "pdhg s = pdhg s4"
     "noisy_sino s = noisy_sino s4"
    unfolding compare_cell_Inr by auto
  have As: "A s = ProjectionOperator i a ''gpu''"
    by (simp add: n5 k4 a3 a2)
  have Gs: "Grad s = GradientOperator (tomo.ig s3)"
    by (simp add: n5 k4)
  have Ks: "K s = BlockOperator (A s) (Grad s)"
    by (simp add: n5 k4)
  have al: "tomo.alpha s = 1 / 10"
    by (simp add: n5 k4)
  have fs: "f s = BlockFunction (Scaled (5 / 10) (L2NormSquared (noisy_sino s)))
                (Scaled (tomo.alpha s) MixedL21Norm)"
    by (simp add: n5 k4)
  have gs: "g s = IndicatorBox 0"
    by (simp add: n5 k4)
  have ps: "pdhg s = PDHG (f s) (g s) (K s) (sigma s) (tau s) 200 50"
    by (simp add: n5 k4)
  have Au': "lin (ProjectionOperator i a ''gpu'') u = Inr (Data Au)"
    using hA by (simp add: As)
  have Du': "lin (GradientOperator (tomo.ig s3)) u = Inr (Block (map Data Du))"
    using hD by (simp add: Gs)
  have Ku: "op_apply lin (K s) u = Inr (Block [Data Au, Block (map Data Du)])"
    by (simp add: Ks As Gs Au' Du')
  have fK: "fn_apply leaf (f s) (Block [Data Au, Block (map Data Du)]) =
      Inr (Fin (1 / 2 * l2sq_diff Au (entries (array (noisy_sino s))) + 1 / 10 * l21 Du))"
    using size1 size2 by (simp add: fs al components_Data)
  have gu: "fn_apply leaf (g s) (Data u) = Inr (box_indicator 0 u)"
    by (simp add: gs)
  have obj: "objective lin leaf (pdhg s) u =
         Inr (tv_objective (1 / 10) Au (entries (array (noisy_sino s))) Du u)"
    unfolding ps objective_def tv_objective_def by (simp add: Ku fK gu)
  show ?thesis
    using obj Ks fs al gs ps by simp
qed

theorem pdhg_splitting_witness:
  "run_all (tomography_notebook demo_lib) tomo_start = Inr tomo_end
   \<and> objective demo_lin demo_leaf (pdhg tomo_end) [3] = Inr (Fin 5)"
proof -
  have hA: "demo_lin (A tomo_end) [3] = Inr (Data [3])"
    by (simp add: tomo_end_fields demo_lin_def)
  have hD: "demo_lin (Grad tomo_end) [3] = Inr (Block (map Data [[3], [4]]))"
    by (simp add: tomo_end_fields demo_lin_def)
  have size1: "length [3::real] = length (entries (array (noisy_sino tomo_end)))"
    by (simp add: tomo_end_fields unit_image_def)
  have size2: "same_size [[3], [4]]"
    by (simp add: same_size_def)
  have val: "tv_objective (1 / 10) [3] (entries (array (noisy_sino tomo_end))) [[3], [4]] [3]
      = Fin 5"
    by (simp add: tv_objective_def tomo_end_fields unit_image_def l2sq_diff_def l21_def
        box_indicator_def sqrt_25)
  from pdhg_splitting [where lin = demo_lin and u = "[3]" and leaf = demo_leaf,
      OF demo_tomography_run hA hD size1 size2]
  have "objective demo_lin demo_leaf (pdhg tomo_end) [3] =
      Inr (tv_objective (1 / 10) [3] (entries (array (noisy_sino tomo_end))) [[3], [4]] [3])"
    by blast
  then show ?thesis
    by (simp only: val demo_tomography_run simp_thms)
qed


section \<open>Iteration counts\<close>

text \<open>
  What the notebooks fix about the length of a run. The FISTA object was built with
  \<open>max_iteration = 200\<close> and the solution displayed is what \<^verbatim>\<open>fista.run()\<close>, called without
  an iteration count, left; the PDHG object was built with \<open>max_iteration = 200\<close> and its
  solution is what \<^verbatim>\<open>pdhg.run(verbose=2)\<close>, again without an iteration count, left.
\<close>

lemma algorithms_max_iteration:
  assumes "run_all (deblurring_notebook L) s0 = Inr s"
    and "run_all (tomography_notebook L') t0 = Inr t"
  shows "(\<exists>x0 hf hg. fista s = FISTA x0 hf hg 200 50)
     \<and> run L (fista s) None None = Inr (fista_solution s)
     \<and> (\<exists>hf hg k sg ta. pdhg t = PDHG hf hg k sg ta 200 50)
     \<and> run L' (pdhg t) None (Some 2) = Inr (pdhg_solution t)"
proof -
  from assms(2) obtain t3 t4 where
    c4: "run_all (pdhg_cell L') t3 = Inr t4" and c5: "run_all (compare_cell L') t4 = Inr t"
    unfolding tomography_Inr by blast
  from c4 have p4: "\<exists>hf hg k sg ta. pdhg t4 = PDHG hf hg k sg ta 200 50"
    "run L' (pdhg t4) None (Some 2) = Inr (pdhg_solution t4)"
    unfolding pdhg_cell_Inr by auto
  from c5 have n5: "pdhg t = pdhg t4" "pdhg_solution t = pdhg_solution t4"
    unfolding compare_cell_Inr by auto
  from assms(1) have "(\<exists>x0 hf hg. fista s = FISTA x0 hf hg 200 50)
     \<and> run L (fista s) None None = Inr (fista_solution s)"
    unfolding deblurring_Inr by auto
  with p4 show ?thesis by (simp add: n5)
qed

text \<open>
  How many iterations \<^verbatim>\<open>run\<close> then performs is decided inside the library.
\<close>


section \<open>Exceptions\<close>

text \<open>
  \<^bold>\<open>Claim C7.\<close> Neither notebook handles an exception: whatever a call raises is the
  outcome of the run. Going through the calls of a notebook in the order in which it
  makes them, each with the arguments it is given there, a run ends with the exception \<open>e\<close>
  exactly when some call raises \<open>e\<close> and every call before it has returned. The calls are
  the library's, and in the second notebook the NumPy sum on line 373.
\<close>

theorem exceptions_propagate:
  "(run_all (deblurring_notebook L) s = Inl e \<longleftrightarrow>
      SHAPES_get L = Inl e
      \<or> (\<exists>d. SHAPES_get L = Inr d \<and>
        (show2D L \<lparr>images = [Arr psf5], titles = [''PSF'']\<rparr> = Some e
       \<or> (show2D L \<lparr>images = [Arr psf5], titles = [''PSF'']\<rparr> = None \<and>
         (operator_error L (BlurringOperator psf5 (geometry d)) = Some e
        \<or> (operator_error L (BlurringOperator psf5 (geometry d)) = None \<and>
          (direct L (BlurringOperator psf5 (geometry d)) d = Inl e
         \<or> (\<exists>b. direct L (BlurringOperator psf5 (geometry d)) d = Inr b \<and>
           (noise_gaussian L b 10 (1 / 10000) = Inl e
          \<or> (\<exists>bn. noise_gaussian L b 10 (1 / 10000) = Inr bn \<and>
            (show2D L \<lparr>images = [Img bn], titles = [''Blurred+Noisy'']\<rparr> = Some e
           \<or> (show2D L \<lparr>images = [Img bn], titles = [''Blurred+Noisy'']\<rparr> = None \<and>
             (function_error L (TotalVariation 10) = Some e
            \<or> (function_error L (TotalVariation 10) = None \<and>
              (function_error L (Scaled (5 / 100) (TotalVariation 10)) = Some e
             \<or> (function_error L (Scaled (5 / 100) (TotalVariation 10)) = None \<and>
               (function_error L (LeastSquares (BlurringOperator psf5 (geometry d)) bn) = Some e
              \<or> (function_error L (LeastSquares (BlurringOperator psf5 (geometry d)) bn) = None \<and>
                (allocate L (geometry d) (Some 0) = Inl e
               \<or> (\<exists>x0. allocate L (geometry d) (Some 0) = Inr x0 \<and>
                 (algorithm_error L (FISTA x0 (LeastSquares (BlurringOperator psf5 (geometry d)) bn) (Scaled (5 / 100) (TotalVariation 10)) 200 50) = Some e
                \<or> (algorithm_error L (FISTA x0 (LeastSquares (BlurringOperator psf5 (geometry d)) bn) (Scaled (5 / 100) (TotalVariation 10)) 200 50) = None \<and>
                  (run L (FISTA x0 (LeastSquares (BlurringOperator psf5 (geometry d)) bn) (Scaled (5 / 100) (TotalVariation 10)) 200 50) None None = Inl e
                 \<or> (\<exists>sol. run L (FISTA x0 (LeastSquares (BlurringOperator psf5 (geometry d)) bn) (Scaled (5 / 100) (TotalVariation 10)) 200 50) None None = Inr sol \<and>
                   (show2D L \<lparr>images = [Img d, Img bn, Img sol], titles = [''Ground truth'', ''Noisy Data (Gaussian)'', ''Deblurred'']\<rparr> = Some e)))))))))))))))))))))))))
   \<and> (run_all (tomography_notebook L') t = Inl e' \<longleftrightarrow>
      create_Parallel2D L' = Inl e'
      \<or> (\<exists>a1. create_Parallel2D L' = Inr a1 \<and>
        (set_angles L' a1 (np_linspace 0 180 180) = Inl e'
       \<or> (\<exists>a2. set_angles L' a1 (np_linspace 0 180 180) = Inr a2 \<and>
         (set_panel L' a2 256 (1 / 10) = Inl e'
        \<or> (\<exists>a3. set_panel L' a2 256 (1 / 10) = Inr a3 \<and>
          (get_ImageGeometry L' a3 = Inl e'
         \<or> (\<exists>i. get_ImageGeometry L' a3 = Inr i \<and>
           (TomoPhantom_get_ImageData L' 12 i = Inl e'
          \<or> (\<exists>p. TomoPhantom_get_ImageData L' 12 i = Inr p \<and>
            (operator_error L' (ProjectionOperator i a3 ''gpu'') = Some e'
           \<or> (operator_error L' (ProjectionOperator i a3 ''gpu'') = None \<and>
             (direct L' (ProjectionOperator i a3 ''gpu'') p = Inl e'
            \<or> (\<exists>y. direct L' (ProjectionOperator i a3 ''gpu'') p = Inr y \<and>
              (shape L' a3 = Inl e'
             \<or> (\<exists>sh. shape L' a3 = Inr sh \<and>
               (random_normal L' 0 (5 / 10) sh = Inl e'
              \<or> (\<exists>n. random_normal L' 0 (5 / 10) sh = Inr n \<and>
                (allocate L' a3 None = Inl e'
               \<or> (\<exists>z. allocate L' a3 None = Inr z \<and>
                 (np_plus n (array y) = Inl e'
                \<or> (\<exists>a. np_plus n (array y) = Inr a \<and>
                  (fill L' z a = Inl e'
                 \<or> (\<exists>c. fill L' z a = Inr c \<and>
                   (show2D L' \<lparr>images = [Img p, Img y, Img (c\<lparr>array := clip_negative (array c)\<rparr>)], titles = [''Ground Truth'', ''Sinogram'', ''Noisy Sinogram'']\<rparr> = Some e'
                  \<or> (show2D L' \<lparr>images = [Img p, Img y, Img (c\<lparr>array := clip_negative (array c)\<rparr>)], titles = [''Ground Truth'', ''Sinogram'', ''Noisy Sinogram'']\<rparr> = None \<and>
                    (processor_error L' (FBP i a3 ''cpu'') = Some e'
                   \<or> (processor_error L' (FBP i a3 ''cpu'') = None \<and>
                     (process L' (FBP i a3 ''cpu'') (c\<lparr>array := clip_negative (array c)\<rparr>) = Inl e'
                    \<or> (\<exists>r. process L' (FBP i a3 ''cpu'') (c\<lparr>array := clip_negative (array c)\<rparr>) = Inr r \<and>
                      (show2D L' \<lparr>images = [Img p, Img r], titles = [''Ground Truth'', ''FBP reconstruction'']\<rparr> = Some e'
                     \<or> (show2D L' \<lparr>images = [Img p, Img r], titles = [''Ground Truth'', ''FBP reconstruction'']\<rparr> = None \<and>
                       ((operator_error L' (GradientOperator i) = Some e'
                      \<or> (operator_error L' (GradientOperator i) = None \<and>
                        (operator_error L' (BlockOperator (ProjectionOperator i a3 ''gpu'') (GradientOperator i)) = Some e'
                       \<or> (operator_error L' (BlockOperator (ProjectionOperator i a3 ''gpu'') (GradientOperator i)) = None \<and>
                         (function_error L' (L2NormSquared (c\<lparr>array := clip_negative (array c)\<rparr>)) = Some e'
                        \<or> (function_error L' (L2NormSquared (c\<lparr>array := clip_negative (array c)\<rparr>)) = None \<and>
                          (function_error L' (Scaled (5 / 10) (L2NormSquared (c\<lparr>array := clip_negative (array c)\<rparr>))) = Some e'
                         \<or> (function_error L' (Scaled (5 / 10) (L2NormSquared (c\<lparr>array := clip_negative (array c)\<rparr>))) = None \<and>
                           (function_error L' MixedL21Norm = Some e'
                          \<or> (function_error L' MixedL21Norm = None \<and>
                            (function_error L' (Scaled (1 / 10) MixedL21Norm) = Some e'
                           \<or> (function_error L' (Scaled (1 / 10) MixedL21Norm) = None \<and>
                             (function_error L' (BlockFunction (Scaled (5 / 10) (L2NormSquared (c\<lparr>array := clip_negative (array c)\<rparr>))) (Scaled (1 / 10) MixedL21Norm)) = Some e'
                            \<or> (function_error L' (BlockFunction (Scaled (5 / 10) (L2NormSquared (c\<lparr>array := clip_negative (array c)\<rparr>))) (Scaled (1 / 10) MixedL21Norm)) = None \<and>
                              (function_error L' (IndicatorBox 0) = Some e'
                             \<or> (function_error L' (IndicatorBox 0) = None \<and>
                               (operator_norm L' (BlockOperator (ProjectionOperator i a3 ''gpu'') (GradientOperator i)) = Inl e'
                              \<or> (\<exists>nK. operator_norm L' (BlockOperator (ProjectionOperator i a3 ''gpu'') (GradientOperator i)) = Inr nK \<and>
                                (algorithm_error L' (PDHG (BlockFunction (Scaled (5 / 10) (L2NormSquared (c\<lparr>array := clip_negative (array c)\<rparr>))) (Scaled (1 / 10) MixedL21Norm)) (IndicatorBox 0) (BlockOperator (ProjectionOperator i a3 ''gpu'') (GradientOperator i)) (np_truediv 1 nK) (np_truediv 1 nK) 200 50) = Some e'
                               \<or> (algorithm_error L' (PDHG (BlockFunction (Scaled (5 / 10) (L2NormSquared (c\<lparr>array := clip_negative (array c)\<rparr>))) (Scaled (1 / 10) MixedL21Norm)) (IndicatorBox 0) (BlockOperator (ProjectionOperator i a3 ''gpu'') (GradientOperator i)) (np_truediv 1 nK) (np_truediv 1 nK) 200 50) = None \<and>
                                 (run L' (PDHG (BlockFunction (Scaled (5 / 10) (L2NormSquared (c\<lparr>array := clip_negative (array c)\<rparr>))) (Scaled (1 / 10) MixedL21Norm)) (IndicatorBox 0) (BlockOperator (ProjectionOperator i a3 ''gpu'') (GradientOperator i)) (np_truediv 1 nK) (np_truediv 1 nK) 200 50) None (Some 2) = Inl e'
                                \<or> (\<exists>sol. run L' (PDHG (BlockFunction (Scaled (5 / 10) (L2NormSquared (c\<lparr>array := clip_negative (array c)\<rparr>))) (Scaled (1 / 10) MixedL21Norm)) (IndicatorBox 0) (BlockOperator (ProjectionOperator i a3 ''gpu'') (GradientOperator i)) (np_truediv 1 nK) (np_truediv 1 nK) 200 50) None (Some 2) = Inr sol \<and>
                                  (show2D L' \<lparr>images = [Img sol, Img r, Img p], titles = [''TV regularisation'', ''FBP'', ''Ground Truth'']\<rparr> = Some e'
                                 \<or> (show2D L' \<lparr>images = [Img sol, Img r, Img p], titles = [''TV regularisation'', ''FBP'', ''Ground Truth'']\<rparr> = None \<and>
                                   (plt L' plt_figure = Some e'
                                  \<or> (plt L' plt_figure = None \<and>
                                    (get_slice L' p 128 = Inl e'
                                   \<or> (\<exists>l1. get_slice L' p 128 = Inr l1 \<and>
                                     (plt L' (plt_plot (array l1) ''Ground Truth'') = Some e'
                                    \<or> (plt L' (plt_plot (array l1) ''Ground Truth'') = None \<and>
                                      (get_slice L' r 128 = Inl e'
                                     \<or> (\<exists>l2. get_slice L' r 128 = Inr l2 \<and>
                                       (plt L' (plt_plot (array l2) ''FBP'') = Some e'
                                      \<or> (plt L' (plt_plot (array l2) ''FBP'') = None \<and>
                                        (get_slice L' sol 128 = Inl e'
                                       \<or> (\<exists>l3. get_slice L' sol 128 = Inr l3 \<and>
                                         (plt L' (plt_plot (array l3) ''TV'') = Some e'
                                        \<or> (plt L' (plt_plot (array l3) ''TV'') = None \<and>
                                          (plt L' plt_legend = Some e'
                                         \<or> (plt L' plt_legend = None \<and>
                                           (plt L' (plt_title ''Middle Line Profiles'') = Some e'
                                          \<or> (plt L' (plt_title ''Middle Line Profiles'') = None \<and>
                                            (plt L' plt_show = Some e'))))))))))))))))))))))))))))))))))))))))))) :: bool)))))))))))))))))))))))))))))))))"
  (is "?deblurring \<and> ?tomography")
proof
  show ?deblurring
    unfolding deblurring_notebook_def
    by (auto simp add: run_all_append_eq_Inl psf_cell_run load_cell_def blur_cell_def
        fista_cell_def result_cell_def display_def fail_simps step_simps
        simp del: run_all.simps(2))
  show ?tomography
    unfolding tomography_notebook_def run_all_append_eq_Inl
    by (simp add: geometry_cell_fails sinogram_cell_fails fbp_cell_fails pdhg_cell_fails
        compare_cell_fails)
qed

theorem exceptions_propagate_witness:
  "run_all (tomography_notebook no_gpu_lib) tomo_start = Inl (Raised ''device unavailable'')"
  using exceptions_propagate [THEN conjunct2,
      of no_gpu_lib tomo_start "Raised ''device unavailable''"]
  by (simp add: no_gpu_lib_def demo_lib_def unit_image_def)

end
